theory Spec2Isabelle
  imports Complex_Main
begin

section \<open>First-person controls of the city: data model\<close>

text \<open>
  The development embeds \<^verbatim>\<open>FirstPersonControls\<close> (the second document of
  \<^verbatim>\<open>src/src/components/RegisterEnokiWallets.tsx\<close>) and the teleport click of
  \<^verbatim>\<open>src/src/components/game/Minimap.tsx\<close>.

  JavaScript numbers are modelled as mathematical reals: every arithmetic step is the
  exact one, without rounding, infinities or NaN. Where a comparison is a tie over the
  reals (two boxes that touch exactly, a height that returns exactly to the ground
  target after a flight), the doubles of the program can fall on either side of it;
  the instances below are chosen away from such ties, and the landing after a jump is
  proved from any height and velocity rather than from the exact return. The
  \<^verbatim>\<open>useRef\<close> cells of the component and the camera position form one record that
  each handler takes and returns.
\<close>

subsection \<open>THREE.js values\<close>

record vec3 =
  vx :: real
  vy :: real
  vz :: real

record euler =
  ex :: real
  ey :: real

record box3 =
  bmin :: vec3
  bmax :: vec3

definition Vector3 :: "real \<Rightarrow> real \<Rightarrow> real \<Rightarrow> vec3" where
  "Vector3 x y z = \<lparr>vx = x, vy = y, vz = z\<rparr>"

definition Box3 :: "vec3 \<Rightarrow> vec3 \<Rightarrow> box3" where
  "Box3 lo hi = \<lparr>bmin = lo, bmax = hi\<rparr>"

text \<open>\<^verbatim>\<open>v.add(w)\<close>, \<^verbatim>\<open>v.multiplyScalar(k)\<close> and \<^verbatim>\<open>v.lerp(t, alpha)\<close>.\<close>

definition add :: "vec3 \<Rightarrow> vec3 \<Rightarrow> vec3" where
  "add v w = Vector3 (vx v + vx w) (vy v + vy w) (vz v + vz w)"

definition multiplyScalar :: "vec3 \<Rightarrow> real \<Rightarrow> vec3" where
  "multiplyScalar v k = Vector3 (vx v * k) (vy v * k) (vz v * k)"

definition lerp :: "vec3 \<Rightarrow> vec3 \<Rightarrow> real \<Rightarrow> vec3" where
  "lerp v t alpha =
     Vector3 (vx v + (vx t - vx v) * alpha)
             (vy v + (vy t - vy v) * alpha)
             (vz v + (vz t - vz v) * alpha)"

text \<open>\<^verbatim>\<open>v.normalize()\<close> divides by the length, or by 1 when the length is 0.\<close>

definition normalize :: "vec3 \<Rightarrow> vec3" where
  "normalize v =
     (let len = sqrt (vx v * vx v + vy v * vy v + vz v * vz v)
      in multiplyScalar v (1 / (if len = 0 then 1 else len)))"

text \<open>
  \<^verbatim>\<open>v.applyQuaternion(camera.quaternion)\<close>, where the camera quaternion was set from
  the Euler angles \<open>(x, y, 0)\<close> in THREE's default order XYZ: the vector is turned by
  the matrix \<open>Rx(x) * Ry(y)\<close>.
\<close>

definition applyQuaternion :: "euler \<Rightarrow> vec3 \<Rightarrow> vec3" where
  "applyQuaternion r v =
     (let a = ex r; b = ey r
      in Vector3
           (cos b * vx v + sin b * vz v)
           (sin a * sin b * vx v + cos a * vy v - sin a * cos b * vz v)
           (- (cos a * sin b) * vx v + sin a * vy v + cos a * cos b * vz v))"

text \<open>\<^verbatim>\<open>box.setFromCenterAndSize(center, size)\<close> and \<^verbatim>\<open>a.intersectsBox(b)\<close>.\<close>

definition setFromCenterAndSize :: "vec3 \<Rightarrow> vec3 \<Rightarrow> box3" where
  "setFromCenterAndSize c sz =
     (let h = multiplyScalar sz (1 / 2)
      in Box3 (Vector3 (vx c - vx h) (vy c - vy h) (vz c - vz h))
              (Vector3 (vx c + vx h) (vy c + vy h) (vz c + vz h)))"

definition intersectsBox :: "box3 \<Rightarrow> box3 \<Rightarrow> bool" where
  "intersectsBox a b =
     (vx (bmax b) \<ge> vx (bmin a) \<and> vx (bmin b) \<le> vx (bmax a) \<and>
      vy (bmax b) \<ge> vy (bmin a) \<and> vy (bmin b) \<le> vy (bmax a) \<and>
      vz (bmax b) \<ge> vz (bmin a) \<and> vz (bmin b) \<le> vz (bmax a))"

subsection \<open>Lands (\<^verbatim>\<open>src/src/types/game.ts\<close>)\<close>

datatype ZoneType = residential | commercial | industrial | agricultural | park | road | billboard

datatype DevelopmentStage = empty_stage | foundation | construction | complete

text \<open>Of a building the controls read the stage and the optional floor count only.\<close>

record Building =
  stage :: DevelopmentStage
  floors :: "real option"

text \<open>
  Of a land the controls read the id, the grid coordinates, the zone and the building.
  The grid coordinates are integers; the road map's string key
  \<^verbatim>\<open>`${land.x}-${land.y}`\<close> is modelled as the pair of them.
\<close>

record Land =
  land_id :: string
  land_x :: int
  land_y :: int
  zone :: ZoneType
  building :: "Building option"

subsection \<open>Props and state\<close>

record props =
  lands :: "Land list"
  speed :: real
  playerHeight :: real
  enableGravity :: bool
  enableCollision :: bool
  enableCameraBob :: bool
  onLandClick :: bool

text \<open>
  \<open>onLandClick\<close> says whether a callback was supplied. The defaults of the component
  and the props \<^verbatim>\<open>CityCanvas\<close> passes:
\<close>

definition defaultProps :: "Land list \<Rightarrow> props" where
  "defaultProps ls =
     \<lparr>lands = ls, speed = 1 / 10, playerHeight = 16 / 10, enableGravity = True,
      enableCollision = True, enableCameraBob = True, onLandClick = False\<rparr>"

definition cityCanvasProps :: "Land list \<Rightarrow> props" where
  "cityCanvasProps ls =
     \<lparr>lands = ls, speed = 4 / 100, playerHeight = 16 / 10, enableGravity = True,
      enableCollision = True, enableCameraBob = True, onLandClick = True\<rparr>"

record controls =
  moveForward :: bool
  moveBackward :: bool
  rotateLeft :: bool
  rotateRight :: bool
  moveUp :: bool
  moveDown :: bool
  canJump :: bool
  velocity :: vec3
  isMovingRef :: bool
  isOnRoadRef :: bool
  cameraHeightOffset :: real
  targetPosition :: vec3
  currentPosition :: vec3
  targetRotation :: euler
  currentRotation :: euler
  bobTime :: real
  baseHeightRef :: real
  collisionBoxes :: "box3 list"
  roadMap :: "(int \<times> int) set"
  cameraPosition :: vec3

text \<open>
  \<open>cameraPosition\<close> is \<^verbatim>\<open>camera.position\<close>. The camera quaternion is not a field:
  the frame callback sets it from \<open>currentRotation\<close> (and the initialisation sets both
  to zero), so it is the quaternion of \<open>currentRotation\<close> whenever a handler reads it.
\<close>

definition maxHeightOffset :: real where "maxHeightOffset = 2"
definition minHeightOffset :: real where "minHeightOffset = - (15 / 10)"
definition bobAmount :: real where "bobAmount = 3 / 100"
definition bobSpeed :: real where "bobSpeed = 8"
definition playerRadius :: real where "playerRadius = 3 / 10"
definition worldSize :: real where "worldSize = 15"

text \<open>The refs as \<^verbatim>\<open>useRef\<close> creates them, before any effect has run.\<close>

definition initialRefs :: "props \<Rightarrow> controls" where
  "initialRefs p =
     \<lparr>moveForward = False, moveBackward = False, rotateLeft = False, rotateRight = False,
      moveUp = False, moveDown = False, canJump = False, velocity = Vector3 0 0 0,
      isMovingRef = False, isOnRoadRef = False, cameraHeightOffset = 0,
      targetPosition = Vector3 0 0 0, currentPosition = Vector3 0 0 0,
      targetRotation = \<lparr>ex = 0, ey = 0\<rparr>, currentRotation = \<lparr>ex = 0, ey = 0\<rparr>,
      bobTime = 0, baseHeightRef = playerHeight p, collisionBoxes = [], roadMap = {},
      cameraPosition = Vector3 0 (playerHeight p) 0\<rparr>"

subsection \<open>Initialisation effect: spawn point, road map, collision boxes\<close>

definition isRoadLand :: "Land \<Rightarrow> bool" where
  "isRoadLand l = (zone l = road)"

definition buildRoadMap :: "Land list \<Rightarrow> (int \<times> int) set" where
  "buildRoadMap ls = set (map (\<lambda>l. (land_x l, land_y l)) (filter isRoadLand ls))"

definition hasCompleteBuilding :: "Land \<Rightarrow> bool" where
  "hasCompleteBuilding l =
     (case building l of None \<Rightarrow> False
      | Some b \<Rightarrow> stage b = complete \<and> zone l \<noteq> road)"

definition buildingHeight :: "Land \<Rightarrow> real" where
  "buildingHeight l =
     (case building l of None \<Rightarrow> 1
      | Some b \<Rightarrow>
          (case floors b of None \<Rightarrow> 1
           | Some f \<Rightarrow> if f \<noteq> 0 then f * (2 / 10) + 1 else 1))"

definition landBox :: "Land \<Rightarrow> box3" where
  "landBox l =
     (let x = real_of_int (land_x l) - 15; z = real_of_int (land_y l) - 15
      in Box3 (Vector3 (x - 35 / 100) 0 (z - 35 / 100))
              (Vector3 (x + 35 / 100) (buildingHeight l) (z + 35 / 100)))"

definition buildCollisionBoxes :: "Land list \<Rightarrow> box3 list" where
  "buildCollisionBoxes ls = map landBox (filter hasCompleteBuilding ls)"

definition initEffect :: "props \<Rightarrow> controls \<Rightarrow> controls" where
  "initEffect p s =
     (let pos = Vector3 0 (playerHeight p) 0; rot = \<lparr>ex = 0, ey = 0\<rparr>
      in s\<lparr>cameraPosition := pos, targetPosition := pos, currentPosition := pos,
            targetRotation := rot, currentRotation := rot,
            roadMap := buildRoadMap (lands p),
            collisionBoxes := buildCollisionBoxes (lands p)\<rparr>)"

definition mount :: "props \<Rightarrow> controls" where
  "mount p = initEffect p (initialRefs p)"

subsection \<open>Keyboard handlers\<close>

datatype KeyCode =
  KeyW | ArrowUp | KeyS | ArrowDown | KeyA | ArrowLeft | KeyD | ArrowRight
  | Space | KeyQ | KeyE | OtherKey

fun handleKeyDown :: "KeyCode \<Rightarrow> controls \<Rightarrow> controls" where
  "handleKeyDown KeyW s = s\<lparr>moveForward := True\<rparr>"
| "handleKeyDown ArrowUp s = s\<lparr>moveForward := True\<rparr>"
| "handleKeyDown KeyS s = s\<lparr>moveBackward := True\<rparr>"
| "handleKeyDown ArrowDown s = s\<lparr>moveBackward := True\<rparr>"
| "handleKeyDown KeyA s = s\<lparr>rotateLeft := True\<rparr>"
| "handleKeyDown ArrowLeft s = s\<lparr>rotateLeft := True\<rparr>"
| "handleKeyDown KeyD s = s\<lparr>rotateRight := True\<rparr>"
| "handleKeyDown ArrowRight s = s\<lparr>rotateRight := True\<rparr>"
| "handleKeyDown Space s =
     (if canJump s
      then s\<lparr>velocity := (velocity s)\<lparr>vy := vy (velocity s) + 15 / 100\<rparr>, canJump := False\<rparr>
      else s)"
| "handleKeyDown KeyQ s = s\<lparr>moveUp := True\<rparr>"
| "handleKeyDown KeyE s = s\<lparr>moveDown := True\<rparr>"
| "handleKeyDown OtherKey s = s"

fun handleKeyUp :: "KeyCode \<Rightarrow> controls \<Rightarrow> controls" where
  "handleKeyUp KeyW s = s\<lparr>moveForward := False\<rparr>"
| "handleKeyUp ArrowUp s = s\<lparr>moveForward := False\<rparr>"
| "handleKeyUp KeyS s = s\<lparr>moveBackward := False\<rparr>"
| "handleKeyUp ArrowDown s = s\<lparr>moveBackward := False\<rparr>"
| "handleKeyUp KeyA s = s\<lparr>rotateLeft := False\<rparr>"
| "handleKeyUp ArrowLeft s = s\<lparr>rotateLeft := False\<rparr>"
| "handleKeyUp KeyD s = s\<lparr>rotateRight := False\<rparr>"
| "handleKeyUp ArrowRight s = s\<lparr>rotateRight := False\<rparr>"
| "handleKeyUp KeyQ s = s\<lparr>moveUp := False\<rparr>"
| "handleKeyUp KeyE s = s\<lparr>moveDown := False\<rparr>"
| "handleKeyUp k s = s"

subsection \<open>Mouse rotation\<close>

text \<open>
  \<^verbatim>\<open>euler.current.setFromQuaternion(camera.quaternion)\<close> reads the camera quaternion
  back as Euler angles in the order YXZ. That conversion is THREE's, not the
  repository's: it is the parameter \<open>q\<close>, from the angles the quaternion was set from
  to the angles read back. Only the x and y angles are used afterwards.

  \<open>processRotation\<close> is the animation-frame callback of the mouse handler, with the
  rotation accumulated since the last call.
\<close>

definition PI_2 :: real where "PI_2 = pi / 2"

definition processRotation :: "(euler \<Rightarrow> euler) \<Rightarrow> real \<Rightarrow> real \<Rightarrow> controls \<Rightarrow> controls" where
  "processRotation q accumulatedRotationX accumulatedRotationY s =
     (if accumulatedRotationX \<noteq> 0 \<or> accumulatedRotationY \<noteq> 0
      then (let e = q (currentRotation s);
                y = ey e - accumulatedRotationY;
                x = ex e - accumulatedRotationX
            in s\<lparr>targetRotation := \<lparr>ex = max (- PI_2) (min PI_2 x), ey = y\<rparr>\<rparr>)
      else s)"

subsection \<open>Teleport\<close>

definition getGroundHeight :: "real \<Rightarrow> real \<Rightarrow> real" where
  "getGroundHeight x z = 0"

definition teleportPlayer :: "props \<Rightarrow> real \<Rightarrow> real \<Rightarrow> controls \<Rightarrow> controls" where
  "teleportPlayer p x z s =
     (let groundHeight = 0;
          targetY = groundHeight + playerHeight p + cameraHeightOffset s
      in s\<lparr>targetPosition := Vector3 x targetY z,
            currentPosition := Vector3 x targetY z,
            cameraPosition := Vector3 x targetY z,
            baseHeightRef := targetY,
            velocity := (velocity s)\<lparr>vy := 0\<rparr>,
            canJump := True\<rparr>)"

text \<open>
  The minimap's click handler (\<^verbatim>\<open>Minimap.tsx\<close>, \<^verbatim>\<open>handleCanvasClick\<close>).
  \<open>teleportRequest\<close> is its second half: the world coordinates of the click are
  clamped to the world bounds and handed to the teleport function.
  \<open>handleCanvasClick\<close> is the whole handler, from the click's offset in the canvas,
  with the camera and the canvas present and the controls mounted (so that the
  teleport function is installed); it returns the controls and the teleport mode. The
  handler divides by \<open>size / 30\<close>, so the model is of a minimap of non-zero size.
\<close>

definition teleportRequest :: "props \<Rightarrow> real \<Rightarrow> real \<Rightarrow> controls \<Rightarrow> controls" where
  "teleportRequest p worldX worldZ s =
     (let clampedX = max (- 15) (min 15 worldX);
          clampedZ = max (- 15) (min 15 worldZ)
      in teleportPlayer p clampedX clampedZ s)"

definition handleCanvasClick ::
  "props \<Rightarrow> real \<Rightarrow> bool \<Rightarrow> real \<Rightarrow> real \<Rightarrow> controls \<Rightarrow> controls \<times> bool" where
  "handleCanvasClick p mapSize isTeleportMode x y s =
     (if \<not> isTeleportMode then (s, isTeleportMode)
      else (let gridSize = 30;
                cellSize = mapSize / gridSize;
                worldX = (x / cellSize) - 15;
                worldZ = (y / cellSize) - 15
            in (teleportRequest p worldX worldZ s, False)))"

section \<open>The frame callback\<close>

subsection \<open>Road test and collision test\<close>

text \<open>\<^verbatim>\<open>Math.round(v)\<close> is \<open>\<lfloor>v + 1/2\<rfloor>\<close>.\<close>

definition round_js :: "real \<Rightarrow> int" where
  "round_js v = \<lfloor>v + 1 / 2\<rfloor>"

definition isOnRoad :: "controls \<Rightarrow> real \<Rightarrow> real \<Rightarrow> bool" where
  "isOnRoad s x z =
     (let gridX = round_js (x + 15); gridY = round_js (z + 15)
      in (gridX, gridY) \<in> roadMap s)"

definition playerBox :: "props \<Rightarrow> vec3 \<Rightarrow> box3" where
  "playerBox p newPosition =
     setFromCenterAndSize
       (Vector3 (vx newPosition) (vy newPosition + playerHeight p / 2) (vz newPosition))
       (Vector3 (playerRadius * 2) (playerHeight p) (playerRadius * 2))"

definition checkCollision :: "props \<Rightarrow> controls \<Rightarrow> vec3 \<Rightarrow> bool" where
  "checkCollision p s newPosition =
     (if \<not> enableCollision p then False
      else list_ex (intersectsBox (playerBox p newPosition)) (collisionBoxes s))"

subsection \<open>Rotation from the A/D keys, and rotation smoothing\<close>

definition rotationAmount :: real where "rotationAmount = 2"

definition rotateKeys :: "(euler \<Rightarrow> euler) \<Rightarrow> real \<Rightarrow> controls \<Rightarrow> controls" where
  "rotateKeys q delta s =
     (let s1 = (if rotateLeft s
                then (let e = q (currentRotation s)
                      in s\<lparr>targetRotation := e\<lparr>ey := ey e + rotationAmount * delta\<rparr>\<rparr>)
                else s);
          s2 = (if rotateRight s1
                then (let e = q (currentRotation s1)
                      in s1\<lparr>targetRotation := e\<lparr>ey := ey e - rotationAmount * delta\<rparr>\<rparr>)
                else s1)
      in s2)"

definition rotLerpFactor :: "real \<Rightarrow> real" where
  "rotLerpFactor delta = min 1 (delta * 15)"

definition normalizedDeltaY :: "real \<Rightarrow> real" where
  "normalizedDeltaY deltaY =
     (let d1 = (if deltaY > pi then deltaY - 2 * pi else deltaY);
          d2 = (if d1 < - pi then d1 + 2 * pi else d1)
      in d2)"

definition smoothRotation :: "real \<Rightarrow> controls \<Rightarrow> controls" where
  "smoothRotation delta s =
     (let deltaX = ex (targetRotation s) - ex (currentRotation s);
          deltaY = ey (targetRotation s) - ey (currentRotation s)
      in s\<lparr>currentRotation :=
              \<lparr>ex = ex (currentRotation s) + deltaX * rotLerpFactor delta,
               ey = ey (currentRotation s) + normalizedDeltaY deltaY * rotLerpFactor delta\<rparr>\<rparr>)"

subsection \<open>Horizontal movement\<close>

definition moveDirection :: "controls \<Rightarrow> vec3" where
  "moveDirection s =
     (let d0 = Vector3 0 0 0;
          d1 = (if moveForward s then d0\<lparr>vz := vz d0 - 1\<rparr> else d0);
          d2 = (if moveBackward s then d1\<lparr>vz := vz d1 + 1\<rparr> else d1);
          d3 = applyQuaternion (currentRotation s) (normalize d2)
      in d3\<lparr>vy := 0\<rparr>)"

definition currentSpeed :: "props \<Rightarrow> bool \<Rightarrow> real" where
  "currentSpeed p onRoad =
     (let baseSpeed = speed p * 2
      in if onRoad then baseSpeed else baseSpeed * (1 / 2))"

text \<open>
  The movement block in two halves: \<open>proposeMove\<close> publishes the road and moving
  flags and writes the candidate into \<open>targetPosition\<close>; \<open>resolveMove\<close> is the
  collision branch.
\<close>

definition proposeMove :: "props \<Rightarrow> real \<Rightarrow> controls \<Rightarrow> controls" where
  "proposeMove p delta s =
     (let onRoad = isOnRoad s (vx (cameraPosition s)) (vz (cameraPosition s));
          moveVector = multiplyScalar (moveDirection s) (currentSpeed p onRoad * delta * 60)
      in s\<lparr>isOnRoadRef := onRoad,
            isMovingRef := (moveForward s \<or> moveBackward s),
            targetPosition := add (cameraPosition s) moveVector\<rparr>)"

definition resolveMove :: "props \<Rightarrow> real \<Rightarrow> controls \<Rightarrow> controls" where
  "resolveMove p delta s =
     (if \<not> checkCollision p s (targetPosition s)
      then (let lerpFactor = min 1 (delta * 15);
                cur = lerp (currentPosition s) (targetPosition s) lerpFactor
            in s\<lparr>currentPosition := cur,
                  cameraPosition := (cameraPosition s)\<lparr>vx := vx cur, vz := vz cur\<rparr>\<rparr>)
      else s\<lparr>targetPosition := cameraPosition s,
              currentPosition := cameraPosition s\<rparr>)"

definition moveStep :: "props \<Rightarrow> real \<Rightarrow> controls \<Rightarrow> controls" where
  "moveStep p delta s = resolveMove p delta (proposeMove p delta s)"

subsection \<open>Height keys, gravity, camera bob, world bounds\<close>

definition upDownSpeed :: real where "upDownSpeed = 5 / 100"

definition heightKeys :: "controls \<Rightarrow> controls" where
  "heightKeys s =
     (let s1 = (if moveUp s
                then s\<lparr>cameraHeightOffset := min maxHeightOffset (cameraHeightOffset s + upDownSpeed)\<rparr>
                else s);
          s2 = (if moveDown s1
                then s1\<lparr>cameraHeightOffset := max minHeightOffset (cameraHeightOffset s1 - upDownSpeed)\<rparr>
                else s1)
      in s2)"

definition gravityStep :: "props \<Rightarrow> controls \<Rightarrow> controls" where
  "gravityStep p s =
     (if enableGravity p
      then (let s1 = s\<lparr>velocity := (velocity s)\<lparr>vy := vy (velocity s) - 1 / 100\<rparr>\<rparr>;
                groundHeight = getGroundHeight (vx (cameraPosition s1)) (vz (cameraPosition s1));
                targetY = groundHeight + playerHeight p + cameraHeightOffset s1;
                s2 = s1\<lparr>baseHeightRef := targetY\<rparr>
            in if vy (cameraPosition s2) \<le> targetY \<and> vy (velocity s2) \<le> 0
               then s2\<lparr>cameraPosition := (cameraPosition s2)\<lparr>vy := targetY\<rparr>,
                       velocity := (velocity s2)\<lparr>vy := 0\<rparr>,
                       canJump := True\<rparr>
               else s2\<lparr>cameraPosition :=
                         (cameraPosition s2)\<lparr>vy := vy (cameraPosition s2) + vy (velocity s2)\<rparr>\<rparr>)
      else (let b = playerHeight p + cameraHeightOffset s
            in s\<lparr>baseHeightRef := b, cameraPosition := (cameraPosition s)\<lparr>vy := b\<rparr>\<rparr>))"

definition cameraBob :: "props \<Rightarrow> real \<Rightarrow> controls \<Rightarrow> controls" where
  "cameraBob p delta s =
     (if enableCameraBob p \<and> (moveForward s \<or> moveBackward s)
      then (let t = bobTime s + delta * bobSpeed;
                bobOffset = sin t * bobAmount
            in s\<lparr>bobTime := t,
                  cameraPosition := (cameraPosition s)\<lparr>vy := baseHeightRef s + bobOffset\<rparr>\<rparr>)
      else (let s1 = s\<lparr>bobTime := 0\<rparr>
            in if \<not> enableGravity p \<or> canJump s1
               then s1\<lparr>cameraPosition := (cameraPosition s1)\<lparr>vy := baseHeightRef s1\<rparr>\<rparr>
               else s1))"

definition clampToWorld :: "controls \<Rightarrow> controls" where
  "clampToWorld s =
     (let c = cameraPosition s;
          c1 = c\<lparr>vx := max (- worldSize) (min worldSize (vx c))\<rparr>;
          c2 = c1\<lparr>vz := max (- worldSize) (min worldSize (vz c1))\<rparr>
      in s\<lparr>cameraPosition := c2\<rparr>)"

subsection \<open>One frame, and runs of frames\<close>

definition useFrame :: "props \<Rightarrow> (euler \<Rightarrow> euler) \<Rightarrow> real \<Rightarrow> controls \<Rightarrow> controls" where
  "useFrame p q delta s =
     clampToWorld (cameraBob p delta (gravityStep p (heightKeys
       (moveStep p delta (smoothRotation delta (rotateKeys q delta s))))))"

text \<open>A run of frames, one per elapsed time of the list, with no event in between.\<close>

fun frames :: "props \<Rightarrow> (euler \<Rightarrow> euler) \<Rightarrow> real list \<Rightarrow> controls \<Rightarrow> controls" where
  "frames p q [] s = s"
| "frames p q (delta # deltas) s = frames p q deltas (useFrame p q delta s)"

text \<open>
  The state in which a frame tests its candidate position, and whether that test
  rejects the move.
\<close>

definition candidate :: "props \<Rightarrow> (euler \<Rightarrow> euler) \<Rightarrow> real \<Rightarrow> controls \<Rightarrow> controls" where
  "candidate p q delta s = proposeMove p delta (smoothRotation delta (rotateKeys q delta s))"

definition collides :: "props \<Rightarrow> (euler \<Rightarrow> euler) \<Rightarrow> real \<Rightarrow> controls \<Rightarrow> bool" where
  "collides p q delta s =
     checkCollision p (candidate p q delta s) (targetPosition (candidate p q delta s))"

text \<open>\<open>everyFrame P\<close>: \<open>P\<close> holds of every frame of the run, at the state it starts from.\<close>

fun everyFrame ::
  "(real \<Rightarrow> controls \<Rightarrow> bool) \<Rightarrow> props \<Rightarrow> (euler \<Rightarrow> euler) \<Rightarrow> real list \<Rightarrow> controls \<Rightarrow> bool" where
  "everyFrame P p q [] s = True"
| "everyFrame P p q (delta # deltas) s =
     (P delta s \<and> everyFrame P p q deltas (useFrame p q delta s))"

subsection \<open>The states the application reaches\<close>

text \<open>
  From the mounted component: frames, key and mouse events, a re-run of the
  initialisation effect, and teleports as the minimap issues them.
\<close>

inductive reachable :: "props \<Rightarrow> (euler \<Rightarrow> euler) \<Rightarrow> controls \<Rightarrow> bool"
  for p :: props and q :: "euler \<Rightarrow> euler" where
  r_mount: "reachable p q (mount p)"
| r_init: "reachable p q s \<Longrightarrow> reachable p q (initEffect p s)"
| r_frame: "reachable p q s \<Longrightarrow> reachable p q (useFrame p q delta s)"
| r_keyDown: "reachable p q s \<Longrightarrow> reachable p q (handleKeyDown k s)"
| r_keyUp: "reachable p q s \<Longrightarrow> reachable p q (handleKeyUp k s)"
| r_mouse: "reachable p q s \<Longrightarrow> reachable p q (processRotation q ax ay s)"
| r_teleport: "reachable p q s \<Longrightarrow> reachable p q (teleportRequest p x z s)"

definition inBounds :: "controls \<Rightarrow> bool" where
  "inBounds s =
     (\<bar>vx (cameraPosition s)\<bar> \<le> worldSize \<and> \<bar>vz (cameraPosition s)\<bar> \<le> worldSize)"

section \<open>Click selection\<close>

text \<open>
  The click handler collects the visible meshes that carry a land id, casts a ray
  through the pointer and takes the closest intersection.

  The geometry is THREE's. Of a scene object the model keeps what the handler reads:
  whether it is a mesh, its \<^verbatim>\<open>userData.landId\<close>, its visibility, and \<open>rayHits\<close>, the
  distances from the camera at which the ray through the pointer meets it. The scene
  is the list of its objects in traversal order.
\<close>

record SceneObject =
  isMesh :: bool
  userLandId :: "string option"
  visible :: bool
  rayHits :: "real list"

text \<open>JavaScript truthiness of \<^verbatim>\<open>userData.landId\<close>: defined and not the empty string.\<close>

definition truthy :: "string option \<Rightarrow> bool" where
  "truthy i = (case i of None \<Rightarrow> False | Some v \<Rightarrow> v \<noteq> [])"

definition landMeshes :: "SceneObject list \<Rightarrow> SceneObject list" where
  "landMeshes scene = filter (\<lambda>ob. isMesh ob \<and> truthy (userLandId ob) \<and> visible ob) scene"

text \<open>
  \<^verbatim>\<open>raycaster.intersectObjects(meshes, false)\<close> with \<^verbatim>\<open>near = 0\<close> and the given
  \<^verbatim>\<open>far\<close>: the intersections within range, sorted by distance (a stable sort).
\<close>

definition intersectObjects :: "real \<Rightarrow> SceneObject list \<Rightarrow> (real \<times> SceneObject) list" where
  "intersectObjects far meshes =
     sort_key fst
       (concat (map (\<lambda>ob. map (\<lambda>d. (d, ob)) (filter (\<lambda>d. 0 \<le> d \<and> d \<le> far) (rayHits ob)))
                    meshes))"

text \<open>
  The handler returns the controls, and the land \<^verbatim>\<open>onLandClick\<close> is called with
  (\<open>None\<close>: the callback is not called). \<open>button\<close> is \<^verbatim>\<open>event.button\<close>.
\<close>

definition handleClick ::
  "props \<Rightarrow> nat \<Rightarrow> SceneObject list \<Rightarrow> controls \<Rightarrow> controls \<times> Land option" where
  "handleClick p button scene s =
     (if button \<noteq> 0 then (s, None)
      else if \<not> onLandClick p then (s, None)
      else (let meshes = landMeshes scene
            in if length meshes = 0 then (s, None)
               else (case intersectObjects 50 meshes of
                       [] \<Rightarrow> (s, None)
                     | closest # rest \<Rightarrow>
                         (let landId = userLandId (snd closest)
                          in if truthy landId
                             then (case find (\<lambda>l. Some (land_id l) = landId) (lands p) of
                                     None \<Rightarrow> (s, None)
                                   | Some land \<Rightarrow>
                                       if zone land \<noteq> road then (s, Some land) else (s, None))
                             else (s, None)))))"

section \<open>Notions the properties are stated with\<close>

text \<open>
  Grounded: jump-eligible and at rest at the ground target height
  \<open>groundHeight + playerHeight + cameraHeightOffset\<close>, the state the landing branch of
  the gravity block and the teleport produce.
\<close>

definition groundTarget :: "props \<Rightarrow> controls \<Rightarrow> real" where
  "groundTarget p s =
     getGroundHeight (vx (cameraPosition s)) (vz (cameraPosition s)) + playerHeight p
       + cameraHeightOffset s"

definition grounded :: "props \<Rightarrow> controls \<Rightarrow> bool" where
  "grounded p s =
     (canJump s \<and> vy (velocity s) = 0 \<and> vy (cameraPosition s) = groundTarget p s)"

text \<open>No movement key and no height key is held.\<close>

definition idle :: "controls \<Rightarrow> bool" where
  "idle s = (\<not> moveForward s \<and> \<not> moveBackward s \<and> \<not> moveUp s \<and> \<not> moveDown s)"

text \<open>
  The camera sits at the smoothed position horizontally: so after the initialisation,
  after a teleport, and after every frame the world clamp did not cut.
\<close>

definition settled :: "controls \<Rightarrow> bool" where
  "settled s =
     (vx (cameraPosition s) = vx (currentPosition s) \<and>
      vz (cameraPosition s) = vz (currentPosition s))"

text \<open>
  A frame spent on road, and a frame spent off road: the frame's road test (as the
  frame publishes it), no collision, no cut by the world clamp.
\<close>

definition onRoadFrame :: "props \<Rightarrow> (euler \<Rightarrow> euler) \<Rightarrow> real \<Rightarrow> controls \<Rightarrow> bool" where
  "onRoadFrame p q delta s =
     (isOnRoadRef (useFrame p q delta s) \<and> \<not> collides p q delta s \<and>
      settled (useFrame p q delta s))"

definition offRoadFrame :: "props \<Rightarrow> (euler \<Rightarrow> euler) \<Rightarrow> real \<Rightarrow> controls \<Rightarrow> bool" where
  "offRoadFrame p q delta s =
     (\<not> isOnRoadRef (useFrame p q delta s) \<and> \<not> collides p q delta s \<and>
      settled (useFrame p q delta s))"

definition horizontalDistance :: "vec3 \<Rightarrow> vec3 \<Rightarrow> real" where
  "horizontalDistance u v = sqrt ((vx v - vx u)\<^sup>2 + (vz v - vz u)\<^sup>2)"

text \<open>The horizontal direction of a frame's move: the direction after the frame's rotation.\<close>

definition heading :: "(euler \<Rightarrow> euler) \<Rightarrow> real \<Rightarrow> controls \<Rightarrow> vec3" where
  "heading q delta s = moveDirection (smoothRotation delta (rotateKeys q delta s))"

text \<open>Two states steer alike: the same movement and rotation keys, the same rotations.\<close>

definition sameSteering :: "controls \<Rightarrow> controls \<Rightarrow> bool" where
  "sameSteering a b =
     (moveForward a = moveForward b \<and> moveBackward a = moveBackward b \<and>
      rotateLeft a = rotateLeft b \<and> rotateRight a = rotateRight b \<and>
      targetRotation a = targetRotation b \<and> currentRotation a = currentRotation b)"

text \<open>
  Walking straight ahead from the spawn orientation over open ground whose road map
  is \<open>R\<close>, at depth \<open>z\<close>.
\<close>

definition walking :: "(int \<times> int) set \<Rightarrow> controls \<Rightarrow> real \<Rightarrow> bool" where
  "walking R s z =
     (moveForward s \<and> \<not> moveBackward s \<and> \<not> rotateLeft s \<and> \<not> rotateRight s \<and>
      currentRotation s = \<lparr>ex = 0, ey = 0\<rparr> \<and> targetRotation s = \<lparr>ex = 0, ey = 0\<rparr> \<and>
      collisionBoxes s = [] \<and> roadMap s = R \<and>
      vx (cameraPosition s) = 0 \<and> vx (currentPosition s) = 0 \<and>
      vz (cameraPosition s) = z \<and> vz (currentPosition s) = z)"

text \<open>The blend factor in the specification's words, \<open>1 - exp (- k dt)\<close>.\<close>

definition spec_rotLerpFactor :: "real \<Rightarrow> real \<Rightarrow> real" where
  "spec_rotLerpFactor k delta = 1 - exp (- (k * delta))"

subsection \<open>Concrete worlds\<close>

text \<open>
  A city of one plot, a finished four-floor house (its roof at 1.8, above the camera
  height 1.6) one cell north of the spawn point,
  with camera bob switched off; and the player teleported next to its wall, holding W.
  \<open>atWallState\<close> writes that state out, with the published moving flag as given.
\<close>

definition housePlot :: Land where
  "housePlot =
     \<lparr>land_id = ''15-14'', land_x = 15, land_y = 14, zone = residential,
      building = Some \<lparr>stage = complete, floors = Some 4\<rparr>\<rparr>"

definition wallProps :: props where
  "wallProps = (cityCanvasProps [housePlot])\<lparr>enableCameraBob := False\<rparr>"

definition atWall :: controls where
  "atWall = handleKeyDown KeyW (teleportRequest wallProps 0 (- (33 / 100)) (mount wallProps))"

definition atWallState :: "bool \<Rightarrow> controls" where
  "atWallState b =
     \<lparr>moveForward = True, moveBackward = False, rotateLeft = False, rotateRight = False,
      moveUp = False, moveDown = False, canJump = True, velocity = Vector3 0 0 0,
      isMovingRef = b, isOnRoadRef = False, cameraHeightOffset = 0,
      targetPosition = Vector3 0 (16 / 10) (- (33 / 100)),
      currentPosition = Vector3 0 (16 / 10) (- (33 / 100)),
      targetRotation = \<lparr>ex = 0, ey = 0\<rparr>, currentRotation = \<lparr>ex = 0, ey = 0\<rparr>,
      bobTime = 0, baseHeightRef = 16 / 10,
      collisionBoxes =
        [Box3 (Vector3 (- (35 / 100)) 0 (- (135 / 100)))
              (Vector3 (35 / 100) (18 / 10) (- (65 / 100)))],
      roadMap = {},
      cameraPosition = Vector3 0 (16 / 10) (- (33 / 100))\<rparr>"

text \<open>An empty city with the props of \<^verbatim>\<open>CityCanvas\<close>; W held from the spawn point.\<close>

definition openProps :: props where
  "openProps = cityCanvasProps []"

definition walker :: controls where
  "walker = handleKeyDown KeyW (mount openProps)"

text \<open>Standing at the spawn point of the empty city after a teleport there.\<close>

definition standing :: controls where
  "standing = teleportPlayer openProps 0 0 (mount openProps)"

text \<open>A road plot and a park plot, and the tiles that show them, hit at a distance.\<close>

definition roadPlot :: Land where
  "roadPlot = \<lparr>land_id = ''3-4'', land_x = 3, land_y = 4, zone = road, building = None\<rparr>"

definition parkPlot :: Land where
  "parkPlot = \<lparr>land_id = ''3-5'', land_x = 3, land_y = 5, zone = park, building = None\<rparr>"

definition clickProps :: props where
  "clickProps = cityCanvasProps [roadPlot, parkPlot]"

definition tile :: "string \<Rightarrow> real list \<Rightarrow> SceneObject" where
  "tile i ds = \<lparr>isMesh = True, userLandId = Some i, visible = True, rayHits = ds\<rparr>"

text \<open>
  Two scenes: in the first the ray meets the road tile at 3 and the park tile at 7; in
  the second the road tile at 9 and the park tile at 7 and again at 60, beyond the
  reach of the ray.
\<close>

definition roadFirst :: "SceneObject list" where
  "roadFirst = [tile ''3-4'' [3], tile ''3-5'' [7]]"

definition parkFirst :: "SceneObject list" where
  "parkFirst = [tile ''3-4'' [9], tile ''3-5'' [60, 7]]"

section \<open>Basic facts about the frame\<close>

lemma Vector3_sel [simp]:
  "vx (Vector3 x y z) = x" "vy (Vector3 x y z) = y" "vz (Vector3 x y z) = z"
  by (simp_all add: Vector3_def)

lemma clamp_abs: "\<bar>max (- 15) (min 15 (a::real))\<bar> \<le> 15"
  by (simp add: abs_le_iff max_def min_def)

lemma clamp_id: "\<bar>a::real\<bar> \<le> 15 \<Longrightarrow> max (- 15) (min 15 a) = a"
  by (simp add: abs_le_iff max_def min_def)

lemma frames_append: "frames p q (ds @ es) s = frames p q es (frames p q ds s)"
  by (induction ds arbitrary: s) simp_all

text \<open>What each block after the movement block leaves alone.\<close>

lemma heightKeys_keeps:
  "cameraPosition (heightKeys s) = cameraPosition s"
  "targetPosition (heightKeys s) = targetPosition s"
  "currentPosition (heightKeys s) = currentPosition s"
  by (simp_all add: heightKeys_def Let_def)

lemma gravityStep_keeps:
  "vx (cameraPosition (gravityStep p s)) = vx (cameraPosition s)"
  "vz (cameraPosition (gravityStep p s)) = vz (cameraPosition s)"
  "targetPosition (gravityStep p s) = targetPosition s"
  "currentPosition (gravityStep p s) = currentPosition s"
  by (simp_all add: gravityStep_def Let_def)

lemma cameraBob_keeps:
  "vx (cameraPosition (cameraBob p delta s)) = vx (cameraPosition s)"
  "vz (cameraPosition (cameraBob p delta s)) = vz (cameraPosition s)"
  "targetPosition (cameraBob p delta s) = targetPosition s"
  "currentPosition (cameraBob p delta s) = currentPosition s"
  by (simp_all add: cameraBob_def Let_def)

lemma clampToWorld_keeps:
  "vx (cameraPosition (clampToWorld s)) = max (- 15) (min 15 (vx (cameraPosition s)))"
  "vz (cameraPosition (clampToWorld s)) = max (- 15) (min 15 (vz (cameraPosition s)))"
  "vy (cameraPosition (clampToWorld s)) = vy (cameraPosition s)"
  "targetPosition (clampToWorld s) = targetPosition s"
  "currentPosition (clampToWorld s) = currentPosition s"
  by (simp_all add: clampToWorld_def Let_def worldSize_def)

lemmas after_move = heightKeys_keeps gravityStep_keeps cameraBob_keeps clampToWorld_keeps

lemma candidate_camera: "cameraPosition (candidate p q delta s) = cameraPosition s"
  by (simp add: candidate_def proposeMove_def smoothRotation_def rotateKeys_def Let_def)

lemma useFrame_candidate:
  "useFrame p q delta s =
     clampToWorld (cameraBob p delta (gravityStep p (heightKeys
       (resolveMove p delta (candidate p q delta s)))))"
  by (simp add: useFrame_def moveStep_def candidate_def)

subsection \<open>The world bounds hold in every state the application reaches\<close>

lemma useFrame_inBounds: "inBounds (useFrame p q delta s)"
  by (simp add: inBounds_def useFrame_def clampToWorld_keeps worldSize_def clamp_abs)

lemma handleKeyDown_camera: "cameraPosition (handleKeyDown k s) = cameraPosition s"
  by (cases k) simp_all

lemma handleKeyUp_camera: "cameraPosition (handleKeyUp k s) = cameraPosition s"
  by (cases k) simp_all

lemma teleportRequest_camera:
  "cameraPosition (teleportRequest p x z s) =
     Vector3 (max (- 15) (min 15 x)) (playerHeight p + cameraHeightOffset s)
             (max (- 15) (min 15 z))"
  by (simp add: teleportRequest_def teleportPlayer_def Let_def)

lemma teleportRequest_inBounds: "inBounds (teleportRequest p x z s)"
  by (simp add: inBounds_def teleportRequest_camera worldSize_def clamp_abs)

lemma reachable_inBounds: "reachable p q s \<Longrightarrow> inBounds s"
proof (induction rule: reachable.induct)
  case r_mount
  show ?case by (simp add: inBounds_def mount_def initEffect_def Let_def worldSize_def)
next
  case (r_init s)
  show ?case by (simp add: inBounds_def initEffect_def Let_def worldSize_def)
next
  case (r_frame s delta)
  show ?case by (rule useFrame_inBounds)
next
  case (r_keyDown s k)
  then show ?case by (simp add: inBounds_def handleKeyDown_camera)
next
  case (r_keyUp s k)
  then show ?case by (simp add: inBounds_def handleKeyUp_camera)
next
  case (r_mouse s ax ay)
  then show ?case by (simp add: inBounds_def processRotation_def Let_def)
next
  case (r_teleport s x z)
  show ?case by (rule teleportRequest_inBounds)
qed

section \<open>World bounds\<close>

text \<open>
  Claim C4. Whatever the state a frame starts from, whatever the keys held and the
  elapsed time, the camera position the frame leaves has \<open>|x| \<le> 15\<close> and
  \<open>|z| \<le> 15\<close>: the clamp is the last block of the frame callback.
\<close>

theorem world_bounds_invariant:
  "\<bar>vx (cameraPosition (useFrame p q delta s))\<bar> \<le> 15 \<and>
   \<bar>vz (cameraPosition (useFrame p q delta s))\<bar> \<le> 15"
  by (simp add: useFrame_def clampToWorld_keeps clamp_abs)

section \<open>Teleport\<close>

text \<open>
  Claim C5. For every \<open>x\<close>, \<open>z\<close> and every state, the teleport function puts the
  camera, the smoothed position and the target position at \<open>(x, y, z)\<close> with
  \<open>y = groundHeight + playerHeight + cameraHeightOffset\<close> for the height offset in effect
  before the call (the ground height is 0), keeps that offset, zeroes the vertical
  velocity and re-enables the jump: the player is grounded at once.
\<close>

theorem teleport_preserves_height_trim:
  "cameraPosition (teleportPlayer p x z s) =
     Vector3 x (0 + playerHeight p + cameraHeightOffset s) z \<and>
   targetPosition (teleportPlayer p x z s) = cameraPosition (teleportPlayer p x z s) \<and>
   currentPosition (teleportPlayer p x z s) = cameraPosition (teleportPlayer p x z s) \<and>
   baseHeightRef (teleportPlayer p x z s) = 0 + playerHeight p + cameraHeightOffset s \<and>
   cameraHeightOffset (teleportPlayer p x z s) = cameraHeightOffset s \<and>
   vy (velocity (teleportPlayer p x z s)) = 0 \<and>
   canJump (teleportPlayer p x z s) \<and>
   grounded p (teleportPlayer p x z s)"
  by (simp add: teleportPlayer_def Let_def grounded_def groundTarget_def getGroundHeight_def)

text \<open>
  Claim C6. For every requested \<open>x\<close>, \<open>z\<close>, inside the world or not, the teleport the
  minimap issues applies the position \<open>(clamp x, clamp z)\<close> with
  \<open>clamp v = max (-15) (min 15 v)\<close>: its click handler clamps the world coordinates
  before it calls the teleport function, so the camera is within the world bounds
  right after the teleport. (The teleport function itself applies the coordinates it
  is given, as C5 says.) For a minimap of non-zero size, the click handler in teleport
  mode is that teleport at the world coordinates of the click.
\<close>

theorem teleport_clamps_out_of_bounds:
  "vx (cameraPosition (teleportRequest p x z s)) = max (- 15) (min 15 x) \<and>
   vz (cameraPosition (teleportRequest p x z s)) = max (- 15) (min 15 z) \<and>
   teleportRequest p x z s = teleportPlayer p (max (- 15) (min 15 x)) (max (- 15) (min 15 z)) s \<and>
   \<bar>vx (cameraPosition (teleportRequest p x z s))\<bar> \<le> 15 \<and>
   \<bar>vz (cameraPosition (teleportRequest p x z s))\<bar> \<le> 15 \<and>
   (mapSize \<noteq> 0 \<longrightarrow>
      fst (handleCanvasClick p mapSize True cx cy s) =
        teleportRequest p (cx / (mapSize / 30) - 15) (cy / (mapSize / 30) - 15) s)"
  by (simp add: teleportRequest_camera clamp_abs handleCanvasClick_def)
     (simp add: teleportRequest_def)

text \<open>
  An instance: a minimap of size 200 in the empty city, a click 250 to the right of its
  left edge and 50 above its top edge, which is the world position (22.5, -22.5): the
  player lands at (15, -15).
\<close>

theorem teleport_clamps_out_of_bounds_witness:
  "(200 :: real) \<noteq> 0 \<and>
   fst (handleCanvasClick openProps 200 True 250 (- 50) standing) =
     teleportRequest openProps (250 / (200 / 30) - 15) (- 50 / (200 / 30) - 15) standing \<and>
   vx (cameraPosition (fst (handleCanvasClick openProps 200 True 250 (- 50) standing))) = 15 \<and>
   vz (cameraPosition (fst (handleCanvasClick openProps 200 True 250 (- 50) standing))) = - 15"
proof -
  have n: "(200 :: real) \<noteq> 0" by simp
  from teleport_clamps_out_of_bounds [of openProps "250 / (200 / 30) - 15" "- 50 / (200 / 30) - 15"
      standing 200 250 "- 50"] n
  have h: "fst (handleCanvasClick openProps 200 True 250 (- 50) standing) =
      teleportRequest openProps (250 / (200 / 30) - 15) (- 50 / (200 / 30) - 15) standing"
    and x: "vx (cameraPosition (teleportRequest openProps (250 / (200 / 30) - 15)
        (- 50 / (200 / 30) - 15) standing)) = max (- 15) (min 15 (250 / (200 / 30) - 15))"
    and z: "vz (cameraPosition (teleportRequest openProps (250 / (200 / 30) - 15)
        (- 50 / (200 / 30) - 15) standing)) = max (- 15) (min 15 (- 50 / (200 / 30) - 15))"
    by blast+
  have x': "vx (cameraPosition (fst (handleCanvasClick openProps 200 True 250 (- 50) standing))) = 15"
    unfolding h x by simp
  have z': "vz (cameraPosition (fst (handleCanvasClick openProps 200 True 250 (- 50) standing))) = - 15"
    unfolding h z by simp
  from n h x' z' show ?thesis by blast
qed

section \<open>Collision rejection\<close>

lemma collision_frame:
  assumes "inBounds s" and "collides p q delta s"
  shows "targetPosition (useFrame p q delta s) = cameraPosition s"
    and "currentPosition (useFrame p q delta s) = cameraPosition s"
    and "vx (cameraPosition (useFrame p q delta s)) = vx (cameraPosition s)"
    and "vz (cameraPosition (useFrame p q delta s)) = vz (cameraPosition s)"
  using assms
  by (simp_all add: useFrame_candidate after_move resolveMove_def
      collides_def candidate_camera inBounds_def worldSize_def clamp_id)

lemma everyFrame_collides_run:
  assumes "inBounds s" and "everyFrame (collides p q) p q deltas s"
  shows "vx (cameraPosition (frames p q deltas s)) = vx (cameraPosition s) \<and>
         vz (cameraPosition (frames p q deltas s)) = vz (cameraPosition s) \<and>
         (deltas \<noteq> [] \<longrightarrow>
            vx (targetPosition (frames p q deltas s)) = vx (cameraPosition s) \<and>
            vz (targetPosition (frames p q deltas s)) = vz (cameraPosition s) \<and>
            vx (currentPosition (frames p q deltas s)) = vx (cameraPosition s) \<and>
            vz (currentPosition (frames p q deltas s)) = vz (cameraPosition s))"
  using assms
proof (induction deltas arbitrary: s)
  case Nil
  show ?case by simp
next
  case (Cons d ds)
  let ?s1 = "useFrame p q d s"
  from Cons.prems have c: "collides p q d s" and rest: "everyFrame (collides p q) p q ds ?s1"
    by simp_all
  note step = collision_frame [OF Cons.prems(1) c]
  have ih: "vx (cameraPosition (frames p q ds ?s1)) = vx (cameraPosition ?s1) \<and>
         vz (cameraPosition (frames p q ds ?s1)) = vz (cameraPosition ?s1) \<and>
         (ds \<noteq> [] \<longrightarrow>
            vx (targetPosition (frames p q ds ?s1)) = vx (cameraPosition ?s1) \<and>
            vz (targetPosition (frames p q ds ?s1)) = vz (cameraPosition ?s1) \<and>
            vx (currentPosition (frames p q ds ?s1)) = vx (cameraPosition ?s1) \<and>
            vz (currentPosition (frames p q ds ?s1)) = vz (cameraPosition ?s1))"
    by (rule Cons.IH [OF useFrame_inBounds rest])
  show ?case
  proof (cases "ds = []")
    case True
    then show ?thesis using step by simp
  next
    case False
    then show ?thesis using ih step by simp
  qed
qed

text \<open>
  Claim C3. In any state the application reaches, a frame whose collision test finds
  the player box at the candidate position intersecting a collision volume (collision
  being enabled) rejects the move: the target and the smoothed position fall back to
  the camera position the frame started from, and the camera's horizontal position is
  unchanged. Over a run of such frames, however
  many and whatever their elapsed times, the horizontal position of the camera, of
  the target and of the smoothed position after the run are those of the camera
  before it: no jitter, no creeping into the volume, no sliding.
\<close>

theorem collision_rejection_idempotent:
  assumes "reachable p q s"
    and "everyFrame (collides p q) p q (delta # deltas) s"
  shows "targetPosition (useFrame p q delta s) = cameraPosition s \<and>
         currentPosition (useFrame p q delta s) = cameraPosition s \<and>
         vx (cameraPosition (useFrame p q delta s)) = vx (cameraPosition s) \<and>
         vz (cameraPosition (useFrame p q delta s)) = vz (cameraPosition s) \<and>
         vx (cameraPosition (frames p q (delta # deltas) s)) = vx (cameraPosition s) \<and>
         vz (cameraPosition (frames p q (delta # deltas) s)) = vz (cameraPosition s) \<and>
         vx (targetPosition (frames p q (delta # deltas) s)) = vx (cameraPosition s) \<and>
         vz (targetPosition (frames p q (delta # deltas) s)) = vz (cameraPosition s) \<and>
         vx (currentPosition (frames p q (delta # deltas) s)) = vx (cameraPosition s) \<and>
         vz (currentPosition (frames p q (delta # deltas) s)) = vz (cameraPosition s)"
proof -
  have b: "inBounds s" by (rule reachable_inBounds [OF assms(1)])
  from assms(2) have c: "collides p q delta s" by simp
  show ?thesis
    using collision_frame [OF b c] everyFrame_collides_run [OF b assms(2)] by simp
qed

text \<open>
  An instance: next to the wall of the house, holding W, two frames at 60 Hz. Each
  frame's candidate is 0.04 further north, where the player box (its bottom at the
  camera height 1.6, well below the roof at 1.8) reaches 0.02 into the house; the
  player stays at \<open>z = -0.33\<close>.
\<close>

lemma atWall_eq: "atWall = atWallState False"
  by (simp add: atWall_def atWallState_def wallProps_def housePlot_def cityCanvasProps_def
      mount_def initEffect_def initialRefs_def teleportRequest_def teleportPlayer_def
      buildRoadMap_def buildCollisionBoxes_def isRoadLand_def hasCompleteBuilding_def
      landBox_def buildingHeight_def Let_def Vector3_def)

lemma atWall_rotateKeys: "rotateKeys id (1 / 60) (atWallState b) = atWallState b"
  by (simp add: rotateKeys_def atWallState_def)

lemma atWall_smoothRotation: "smoothRotation (1 / 60) (atWallState b) = atWallState b"
  by (simp add: smoothRotation_def atWallState_def normalizedDeltaY_def)

lemma atWall_proposeMove:
  "proposeMove wallProps (1 / 60) (atWallState b) =
     (atWallState True)\<lparr>targetPosition := Vector3 0 (16 / 10) (- (37 / 100))\<rparr>"
  by (simp add: proposeMove_def atWallState_def isOnRoad_def moveDirection_def normalize_def
      applyQuaternion_def multiplyScalar_def add_def currentSpeed_def wallProps_def
      cityCanvasProps_def Let_def Vector3_def)

lemma atWall_checkCollision:
  "checkCollision wallProps
     ((atWallState True)\<lparr>targetPosition := Vector3 0 (16 / 10) (- (37 / 100))\<rparr>)
     (Vector3 0 (16 / 10) (- (37 / 100)))"
  by (simp add: checkCollision_def atWallState_def playerBox_def setFromCenterAndSize_def
      intersectsBox_def Box3_def multiplyScalar_def playerRadius_def wallProps_def
      cityCanvasProps_def Let_def)

lemma atWall_resolveMove:
  "resolveMove wallProps (1 / 60)
     ((atWallState True)\<lparr>targetPosition := Vector3 0 (16 / 10) (- (37 / 100))\<rparr>) =
   atWallState True"
  using atWall_checkCollision by (simp add: resolveMove_def) (simp add: atWallState_def)

lemma atWall_heightKeys: "heightKeys (atWallState b) = atWallState b"
  by (simp add: heightKeys_def atWallState_def)

lemma atWall_gravityStep: "gravityStep wallProps (atWallState b) = atWallState b"
  by (simp add: gravityStep_def atWallState_def wallProps_def cityCanvasProps_def
      getGroundHeight_def Let_def Vector3_def)

lemma atWall_cameraBob: "cameraBob wallProps (1 / 60) (atWallState b) = atWallState b"
  by (simp add: cameraBob_def atWallState_def wallProps_def cityCanvasProps_def Let_def
      Vector3_def)

lemma atWall_clampToWorld: "clampToWorld (atWallState b) = atWallState b"
  by (simp add: clampToWorld_def atWallState_def worldSize_def Let_def Vector3_def)

lemma atWall_frame: "useFrame wallProps id (1 / 60) (atWallState b) = atWallState True"
  by (simp only: useFrame_def moveStep_def atWall_rotateKeys atWall_smoothRotation
      atWall_proposeMove atWall_resolveMove atWall_heightKeys atWall_gravityStep
      atWall_cameraBob atWall_clampToWorld)

lemma atWall_collides: "collides wallProps id (1 / 60) (atWallState b)"
  using atWall_checkCollision
  by (simp only: collides_def candidate_def atWall_rotateKeys atWall_smoothRotation
      atWall_proposeMove)
     (simp add: atWallState_def)

lemma atWall_reachable: "reachable wallProps id atWall"
  unfolding atWall_def by (intro reachable.intros)

theorem collision_rejection_idempotent_witness:
  "reachable wallProps id atWall \<and>
   everyFrame (collides wallProps id) wallProps id [1 / 60, 1 / 60] atWall \<and>
   vx (cameraPosition (frames wallProps id [1 / 60, 1 / 60] atWall)) = 0 \<and>
   vz (cameraPosition (frames wallProps id [1 / 60, 1 / 60] atWall)) = - (33 / 100) \<and>
   vz (targetPosition (frames wallProps id [1 / 60, 1 / 60] atWall)) = - (33 / 100) \<and>
   vz (currentPosition (frames wallProps id [1 / 60, 1 / 60] atWall)) = - (33 / 100)"
proof -
  have e: "everyFrame (collides wallProps id) wallProps id [1 / 60, 1 / 60] atWall"
    by (simp add: atWall_eq atWall_frame atWall_collides)
  have c: "cameraPosition atWall = Vector3 0 (16 / 10) (- (33 / 100))"
    by (simp add: atWall_eq atWallState_def)
  show ?thesis
    using collision_rejection_idempotent [OF atWall_reachable e] atWall_reachable e
    by (simp add: c)
qed

section \<open>What a frame does to keys, rotation and horizontal position\<close>

lemma rotateKeys_keeps:
  "moveForward (rotateKeys q delta s) = moveForward s"
  "moveBackward (rotateKeys q delta s) = moveBackward s"
  "rotateLeft (rotateKeys q delta s) = rotateLeft s"
  "rotateRight (rotateKeys q delta s) = rotateRight s"
  "moveUp (rotateKeys q delta s) = moveUp s"
  "moveDown (rotateKeys q delta s) = moveDown s"
  "roadMap (rotateKeys q delta s) = roadMap s"
  "collisionBoxes (rotateKeys q delta s) = collisionBoxes s"
  "currentRotation (rotateKeys q delta s) = currentRotation s"
  "cameraPosition (rotateKeys q delta s) = cameraPosition s"
  "currentPosition (rotateKeys q delta s) = currentPosition s"
  by (simp_all add: rotateKeys_def Let_def)

lemma smoothRotation_keeps:
  "moveForward (smoothRotation delta s) = moveForward s"
  "moveBackward (smoothRotation delta s) = moveBackward s"
  "rotateLeft (smoothRotation delta s) = rotateLeft s"
  "rotateRight (smoothRotation delta s) = rotateRight s"
  "moveUp (smoothRotation delta s) = moveUp s"
  "moveDown (smoothRotation delta s) = moveDown s"
  "roadMap (smoothRotation delta s) = roadMap s"
  "collisionBoxes (smoothRotation delta s) = collisionBoxes s"
  "targetRotation (smoothRotation delta s) = targetRotation s"
  "cameraPosition (smoothRotation delta s) = cameraPosition s"
  "currentPosition (smoothRotation delta s) = currentPosition s"
  by (simp_all add: smoothRotation_def Let_def)

lemma proposeMove_keeps:
  "moveForward (proposeMove p delta s) = moveForward s"
  "moveBackward (proposeMove p delta s) = moveBackward s"
  "rotateLeft (proposeMove p delta s) = rotateLeft s"
  "rotateRight (proposeMove p delta s) = rotateRight s"
  "moveUp (proposeMove p delta s) = moveUp s"
  "moveDown (proposeMove p delta s) = moveDown s"
  "roadMap (proposeMove p delta s) = roadMap s"
  "collisionBoxes (proposeMove p delta s) = collisionBoxes s"
  "targetRotation (proposeMove p delta s) = targetRotation s"
  "currentRotation (proposeMove p delta s) = currentRotation s"
  "cameraPosition (proposeMove p delta s) = cameraPosition s"
  "currentPosition (proposeMove p delta s) = currentPosition s"
  by (simp_all add: proposeMove_def Let_def)

lemma resolveMove_keeps:
  "moveForward (resolveMove p delta s) = moveForward s"
  "moveBackward (resolveMove p delta s) = moveBackward s"
  "rotateLeft (resolveMove p delta s) = rotateLeft s"
  "rotateRight (resolveMove p delta s) = rotateRight s"
  "moveUp (resolveMove p delta s) = moveUp s"
  "moveDown (resolveMove p delta s) = moveDown s"
  "roadMap (resolveMove p delta s) = roadMap s"
  "collisionBoxes (resolveMove p delta s) = collisionBoxes s"
  "targetRotation (resolveMove p delta s) = targetRotation s"
  "currentRotation (resolveMove p delta s) = currentRotation s"
  "isOnRoadRef (resolveMove p delta s) = isOnRoadRef s"
  by (simp_all add: resolveMove_def Let_def)

lemma heightKeys_keeps2:
  "moveForward (heightKeys s) = moveForward s"
  "moveBackward (heightKeys s) = moveBackward s"
  "rotateLeft (heightKeys s) = rotateLeft s"
  "rotateRight (heightKeys s) = rotateRight s"
  "moveUp (heightKeys s) = moveUp s"
  "moveDown (heightKeys s) = moveDown s"
  "roadMap (heightKeys s) = roadMap s"
  "collisionBoxes (heightKeys s) = collisionBoxes s"
  "targetRotation (heightKeys s) = targetRotation s"
  "currentRotation (heightKeys s) = currentRotation s"
  "isOnRoadRef (heightKeys s) = isOnRoadRef s"
  by (simp_all add: heightKeys_def Let_def)

lemma gravityStep_keeps2:
  "moveForward (gravityStep p s) = moveForward s"
  "moveBackward (gravityStep p s) = moveBackward s"
  "rotateLeft (gravityStep p s) = rotateLeft s"
  "rotateRight (gravityStep p s) = rotateRight s"
  "moveUp (gravityStep p s) = moveUp s"
  "moveDown (gravityStep p s) = moveDown s"
  "roadMap (gravityStep p s) = roadMap s"
  "collisionBoxes (gravityStep p s) = collisionBoxes s"
  "targetRotation (gravityStep p s) = targetRotation s"
  "currentRotation (gravityStep p s) = currentRotation s"
  "isOnRoadRef (gravityStep p s) = isOnRoadRef s"
  by (simp_all add: gravityStep_def Let_def)

lemma cameraBob_keeps2:
  "moveForward (cameraBob p delta s) = moveForward s"
  "moveBackward (cameraBob p delta s) = moveBackward s"
  "rotateLeft (cameraBob p delta s) = rotateLeft s"
  "rotateRight (cameraBob p delta s) = rotateRight s"
  "moveUp (cameraBob p delta s) = moveUp s"
  "moveDown (cameraBob p delta s) = moveDown s"
  "roadMap (cameraBob p delta s) = roadMap s"
  "collisionBoxes (cameraBob p delta s) = collisionBoxes s"
  "targetRotation (cameraBob p delta s) = targetRotation s"
  "currentRotation (cameraBob p delta s) = currentRotation s"
  "isOnRoadRef (cameraBob p delta s) = isOnRoadRef s"
  by (simp_all add: cameraBob_def Let_def)

lemma clampToWorld_keeps2:
  "moveForward (clampToWorld s) = moveForward s"
  "moveBackward (clampToWorld s) = moveBackward s"
  "rotateLeft (clampToWorld s) = rotateLeft s"
  "rotateRight (clampToWorld s) = rotateRight s"
  "moveUp (clampToWorld s) = moveUp s"
  "moveDown (clampToWorld s) = moveDown s"
  "roadMap (clampToWorld s) = roadMap s"
  "collisionBoxes (clampToWorld s) = collisionBoxes s"
  "targetRotation (clampToWorld s) = targetRotation s"
  "currentRotation (clampToWorld s) = currentRotation s"
  "isOnRoadRef (clampToWorld s) = isOnRoadRef s"
  by (simp_all add: clampToWorld_def Let_def)

lemmas block_keeps = rotateKeys_keeps smoothRotation_keeps proposeMove_keeps resolveMove_keeps
  heightKeys_keeps2 gravityStep_keeps2 cameraBob_keeps2 clampToWorld_keeps2

lemma useFrame_keys:
  "moveForward (useFrame p q delta s) = moveForward s"
  "moveBackward (useFrame p q delta s) = moveBackward s"
  "rotateLeft (useFrame p q delta s) = rotateLeft s"
  "rotateRight (useFrame p q delta s) = rotateRight s"
  "moveUp (useFrame p q delta s) = moveUp s"
  "moveDown (useFrame p q delta s) = moveDown s"
  "roadMap (useFrame p q delta s) = roadMap s"
  "collisionBoxes (useFrame p q delta s) = collisionBoxes s"
  by (simp_all add: useFrame_def moveStep_def block_keeps)

lemma useFrame_rotation:
  "targetRotation (useFrame p q delta s) = targetRotation (rotateKeys q delta s)"
  "currentRotation (useFrame p q delta s) = currentRotation (smoothRotation delta (rotateKeys q delta s))"
  by (simp_all add: useFrame_def moveStep_def block_keeps)

lemma useFrame_isOnRoadRef:
  "isOnRoadRef (useFrame p q delta s) = isOnRoad s (vx (cameraPosition s)) (vz (cameraPosition s))"
  by (simp add: useFrame_def moveStep_def block_keeps)
     (simp add: proposeMove_def Let_def isOnRoad_def block_keeps)

lemma candidate_facts:
  "currentPosition (candidate p q delta s) = currentPosition s"
  "targetPosition (candidate p q delta s) =
     add (cameraPosition s)
       (multiplyScalar (heading q delta s)
          (currentSpeed p (isOnRoad s (vx (cameraPosition s)) (vz (cameraPosition s))) * delta * 60))"
  "collisionBoxes (candidate p q delta s) = collisionBoxes s"
  by (simp_all add: candidate_def heading_def block_keeps)
     (simp add: proposeMove_def Let_def isOnRoad_def block_keeps)

text \<open>
  A frame that does not collide and is not cut by the world clamp moves a settled
  camera by \<open>heading * currentSpeed * delta * 60 * min 1 (delta * 15)\<close>.
\<close>

lemma free_frame:
  assumes "settled s" and "\<not> collides p q delta s" and "settled (useFrame p q delta s)"
  shows "vx (cameraPosition (useFrame p q delta s)) =
           vx (cameraPosition s) +
           vx (heading q delta s) * (currentSpeed p (isOnRoadRef (useFrame p q delta s)) * delta * 60)
             * min 1 (delta * 15)"
    and "vz (cameraPosition (useFrame p q delta s)) =
           vz (cameraPosition s) +
           vz (heading q delta s) * (currentSpeed p (isOnRoadRef (useFrame p q delta s)) * delta * 60)
             * min 1 (delta * 15)"
proof -
  let ?c = "candidate p q delta s"
  let ?f = "min 1 (delta * 15)"
  have cur: "currentPosition (useFrame p q delta s) = lerp (currentPosition s) (targetPosition ?c) ?f"
    using assms(2)
    by (simp add: useFrame_candidate after_move resolveMove_def collides_def Let_def candidate_facts)
  have x: "vx (cameraPosition (useFrame p q delta s)) = vx (lerp (currentPosition s) (targetPosition ?c) ?f)"
    and z: "vz (cameraPosition (useFrame p q delta s)) = vz (lerp (currentPosition s) (targetPosition ?c) ?f)"
    using assms(3) cur by (simp_all add: settled_def)
  from assms(1) have s: "vx (currentPosition s) = vx (cameraPosition s)"
      "vz (currentPosition s) = vz (cameraPosition s)"
    by (simp_all add: settled_def)
  show "vx (cameraPosition (useFrame p q delta s)) =
           vx (cameraPosition s) +
           vx (heading q delta s) * (currentSpeed p (isOnRoadRef (useFrame p q delta s)) * delta * 60)
             * min 1 (delta * 15)"
    by (simp add: x lerp_def candidate_facts add_def multiplyScalar_def s useFrame_isOnRoadRef)
  show "vz (cameraPosition (useFrame p q delta s)) =
           vz (cameraPosition s) +
           vz (heading q delta s) * (currentSpeed p (isOnRoadRef (useFrame p q delta s)) * delta * 60)
             * min 1 (delta * 15)"
    by (simp add: z lerp_def candidate_facts add_def multiplyScalar_def s useFrame_isOnRoadRef)
qed

lemma heading_steering:
  assumes "sameSteering a b"
  shows "heading q delta a = heading q delta b"
  using assms
  by (simp add: heading_def sameSteering_def moveDirection_def smoothRotation_def rotateKeys_def
      Let_def)

lemma useFrame_steering:
  assumes "sameSteering a b"
  shows "sameSteering (useFrame p q delta a) (useFrame p q delta b)"
  using assms
  by (simp add: sameSteering_def useFrame_keys useFrame_rotation)
     (simp add: smoothRotation_def rotateKeys_def Let_def)

section \<open>Walking straight ahead over open ground\<close>

lemma walking_heading:
  assumes "walking R s z"
  shows "heading q delta s = \<lparr>vx = 0, vy = 0, vz = - 1\<rparr>"
  using assms
  by (simp add: walking_def heading_def moveDirection_def smoothRotation_def rotateKeys_def
      normalize_def applyQuaternion_def multiplyScalar_def normalizedDeltaY_def Let_def
      Vector3_def)

lemma walking_rotation:
  assumes "walking R s z"
  shows "targetRotation (useFrame p q delta s) = \<lparr>ex = 0, ey = 0\<rparr>"
    and "currentRotation (useFrame p q delta s) = \<lparr>ex = 0, ey = 0\<rparr>"
  using assms
  by (simp_all add: walking_def useFrame_rotation smoothRotation_def rotateKeys_def
      normalizedDeltaY_def Let_def)

lemma walking_not_collides:
  assumes "walking R s z"
  shows "\<not> collides p q delta s"
  using assms by (simp add: walking_def collides_def checkCollision_def candidate_facts)

lemma walking_settled: "walking R s z \<Longrightarrow> settled s"
  by (simp add: walking_def settled_def)

lemma walking_positions:
  assumes "walking R s z"
  shows "vx (currentPosition (useFrame p q delta s)) = 0"
    and "vz (currentPosition (useFrame p q delta s)) =
           z - currentSpeed p (isOnRoad s 0 z) * delta * 60 * min 1 (delta * 15)"
    and "vx (cameraPosition (useFrame p q delta s)) = 0"
    and "vz (cameraPosition (useFrame p q delta s)) =
           max (- 15) (min 15 (z - currentSpeed p (isOnRoad s 0 z) * delta * 60 * min 1 (delta * 15)))"
proof -
  let ?c = "candidate p q delta s"
  from assms have w: "vx (cameraPosition s) = 0" "vx (currentPosition s) = 0"
      "vz (cameraPosition s) = z" "vz (currentPosition s) = z"
    by (simp_all add: walking_def)
  have nc: "\<not> checkCollision p ?c (targetPosition ?c)"
    using walking_not_collides [OF assms] by (simp add: collides_def)
  have t: "targetPosition ?c =
      Vector3 0 (vy (cameraPosition s)) (z - currentSpeed p (isOnRoad s 0 z) * delta * 60)"
    by (simp add: candidate_facts walking_heading [OF assms] add_def multiplyScalar_def w)
  have cur: "currentPosition (resolveMove p delta ?c) =
      lerp (currentPosition s) (targetPosition ?c) (min 1 (delta * 15))"
    using nc by (simp add: resolveMove_def Let_def candidate_facts)
  have cam: "vx (cameraPosition (resolveMove p delta ?c)) = vx (currentPosition (resolveMove p delta ?c))"
      "vz (cameraPosition (resolveMove p delta ?c)) = vz (currentPosition (resolveMove p delta ?c))"
    using nc by (simp_all add: resolveMove_def Let_def)
  have lx: "vx (lerp (currentPosition s) (targetPosition ?c) (min 1 (delta * 15))) = 0"
    by (simp add: lerp_def t w)
  have lz: "vz (lerp (currentPosition s) (targetPosition ?c) (min 1 (delta * 15))) =
      z - currentSpeed p (isOnRoad s 0 z) * delta * 60 * min 1 (delta * 15)"
    by (simp add: lerp_def t w algebra_simps)
  show "vx (currentPosition (useFrame p q delta s)) = 0"
    by (simp add: useFrame_candidate after_move cur lx)
  show "vz (currentPosition (useFrame p q delta s)) =
           z - currentSpeed p (isOnRoad s 0 z) * delta * 60 * min 1 (delta * 15)"
    by (simp add: useFrame_candidate after_move cur lz)
  show "vx (cameraPosition (useFrame p q delta s)) = 0"
    by (simp add: useFrame_candidate after_move cam cur lx)
  show "vz (cameraPosition (useFrame p q delta s)) =
           max (- 15) (min 15 (z - currentSpeed p (isOnRoad s 0 z) * delta * 60 * min 1 (delta * 15)))"
    by (simp add: useFrame_candidate after_move cam cur lz)
qed

lemma walking_frame:
  assumes "walking R s z"
    and "\<bar>z - currentSpeed p (isOnRoad s 0 z) * delta * 60 * min 1 (delta * 15)\<bar> \<le> 15"
  shows "walking R (useFrame p q delta s)
           (z - currentSpeed p (isOnRoad s 0 z) * delta * 60 * min 1 (delta * 15))"
  using assms(1) walking_rotation [OF assms(1)] walking_positions [OF assms(1)]
  by (simp add: walking_def [of R "useFrame p q delta s"] useFrame_keys clamp_id [OF assms(2)])
     (simp add: walking_def)

lemma offroad_speed: "roadMap s = {} \<Longrightarrow> currentSpeed p (isOnRoad s x z) = speed p"
  by (simp add: isOnRoad_def currentSpeed_def Let_def)

lemma onroad_speed: "roadMap s = UNIV \<Longrightarrow> currentSpeed p (isOnRoad s x z) = speed p * 2"
  by (simp add: isOnRoad_def currentSpeed_def Let_def)

lemma walking_run:
  assumes "walking {} s z"
    and "k = speed p * delta * 60 * min 1 (delta * 15)"
    and "0 \<le> k"
    and "z \<le> 15"
    and "- 15 \<le> z - real n * k"
  shows "walking {} (frames p q (replicate n delta) s) (z - real n * k)"
  using assms
proof (induction n arbitrary: s z)
  case 0
  then show ?case by simp
next
  case (Suc n)
  have r: "roadMap s = {}" using Suc.prems(1) by (simp add: walking_def)
  have nk: "0 \<le> real n * k" using Suc.prems(3) by simp
  have low: "- 15 \<le> z - k - real n * k"
    using Suc.prems(5) by (simp add: algebra_simps)
  have b: "\<bar>z - k\<bar> \<le> 15"
    using Suc.prems(3,4) low nk by linarith
  have w1: "walking {} (useFrame p q delta s) (z - k)"
    using walking_frame [OF Suc.prems(1), of p delta q] b
    unfolding offroad_speed [OF r] Suc.prems(2) by simp
  have z1: "z - k \<le> 15" using Suc.prems(3,4) by linarith
  have "walking {} (frames p q (replicate n delta) (useFrame p q delta s)) (z - k - real n * k)"
    by (rule Suc.IH [OF w1 Suc.prems(2) Suc.prems(3) z1 low])
  then show ?case by (simp add: algebra_simps)
qed

text \<open>
  One second of frames at \<open>n\<close> Hz, \<open>n \<ge> 15\<close>, off road: the camera moves
  \<open>900 * speed / n\<close>, inversely proportional to the frame rate.
\<close>

lemma one_second_walk:
  assumes "walking {} s z" and "15 \<le> n" and "0 \<le> speed p"
    and "z \<le> 15" and "- 15 \<le> z - 900 * speed p / real n"
  shows "vz (cameraPosition (frames p q (replicate n (1 / real n)) s)) =
           z - 900 * speed p / real n"
proof -
  have n: "0 < real n" "15 \<le> real n" using assms(2) by simp_all
  then have m: "min 1 (1 / real n * 15) = 15 / real n"
    by (simp add: min_def field_simps)
  define k where "k = speed p * 900 / (real n * real n)"
  have "k = speed p * (1 / real n) * 60 * (15 / real n)"
    by (simp add: k_def)
  then have k: "k = speed p * (1 / real n) * 60 * min 1 (1 / real n * 15)"
    by (simp only: m)
  have k0: "0 \<le> k" using assms(3) n by (simp add: k_def)
  have nk: "real n * k = 900 * speed p / real n"
    using n by (simp add: k_def field_simps)
  have low: "- 15 \<le> z - real n * k" using assms(5) by (simp add: nk)
  have "walking {} (frames p q (replicate n (1 / real n)) s) (z - real n * k)"
    by (rule walking_run [OF assms(1) k k0 assms(4) low])
  then show ?thesis by (simp add: walking_def nk)
qed

lemma walker_walking: "walking {} walker 0"
  by (simp add: walker_def walking_def openProps_def cityCanvasProps_def mount_def
      initEffect_def initialRefs_def buildRoadMap_def buildCollisionBoxes_def Let_def)

section \<open>Frame rate\<close>

text \<open>
  Claim C1 (the code does not do what the claim says). With the props of
  \<^verbatim>\<open>CityCanvas\<close>, an empty city and W held from the spawn point, one second of
  frames at 30 Hz moves the camera 1.2 units north, and one second at 240 Hz moves it
  0.15 units: each frame's step \<open>speed * delta * 60\<close> is scaled by the smoothing factor
  \<open>min 1 (delta * 15)\<close> once more, so the displacement per second falls with the frame
  rate.
\<close>

theorem frame_rate_dependence:
  "vz (cameraPosition (frames openProps id (replicate 30 (1 / 30)) walker)) = - (12 / 10) \<and>
   vx (cameraPosition (frames openProps id (replicate 30 (1 / 30)) walker)) = 0 \<and>
   vz (cameraPosition (frames openProps id (replicate 240 (1 / 240)) walker)) = - (15 / 100) \<and>
   vx (cameraPosition (frames openProps id (replicate 240 (1 / 240)) walker)) = 0"
proof -
  have s: "speed openProps = 4 / 100"
    by (simp add: openProps_def cityCanvasProps_def)
  have a: "walking {} (frames openProps id (replicate 30 (1 / 30)) walker)
      (0 - real 30 * (4 / 100))"
    by (rule walking_run [OF walker_walking]) (simp_all add: s)
  have b: "walking {} (frames openProps id (replicate 240 (1 / 240)) walker)
      (0 - real 240 * (1 / 1600))"
    by (rule walking_run [OF walker_walking]) (simp_all add: s)
  from a b show ?thesis by (simp add: walking_def)
qed

section \<open>Road speed ratio\<close>

lemma road_ratio_run:
  assumes "sameSteering a b" and "settled a" and "settled b"
    and "everyFrame (onRoadFrame p q) p q deltas a"
    and "everyFrame (offRoadFrame p q) p q deltas b"
  shows "vx (cameraPosition (frames p q deltas a)) - vx (cameraPosition a) =
           2 * (vx (cameraPosition (frames p q deltas b)) - vx (cameraPosition b)) \<and>
         vz (cameraPosition (frames p q deltas a)) - vz (cameraPosition a) =
           2 * (vz (cameraPosition (frames p q deltas b)) - vz (cameraPosition b))"
  using assms
proof (induction deltas arbitrary: a b)
  case Nil
  show ?case by simp
next
  case (Cons d ds)
  let ?a1 = "useFrame p q d a" and ?b1 = "useFrame p q d b"
  from Cons.prems(4) have oa: "onRoadFrame p q d a"
    and ra: "everyFrame (onRoadFrame p q) p q ds ?a1"
    by simp_all
  from Cons.prems(5) have ob: "offRoadFrame p q d b"
    and rb: "everyFrame (offRoadFrame p q) p q ds ?b1"
    by simp_all
  from oa have fa: "isOnRoadRef ?a1" "\<not> collides p q d a" "settled ?a1"
    by (simp_all add: onRoadFrame_def)
  from ob have fb: "\<not> isOnRoadRef ?b1" "\<not> collides p q d b" "settled ?b1"
    by (simp_all add: offRoadFrame_def)
  have h: "heading q d a = heading q d b"
    by (rule heading_steering [OF Cons.prems(1)])
  have st: "sameSteering ?a1 ?b1"
    by (rule useFrame_steering [OF Cons.prems(1)])
  note sa = free_frame [OF Cons.prems(2) fa(2) fa(3)]
  note sb = free_frame [OF Cons.prems(3) fb(2) fb(3)]
  have xa: "vx (cameraPosition ?a1) - vx (cameraPosition a) =
      2 * (vx (cameraPosition ?b1) - vx (cameraPosition b))"
    using fa(1) fb(1) by (simp add: sa(1) sb(1) h currentSpeed_def)
  have za: "vz (cameraPosition ?a1) - vz (cameraPosition a) =
      2 * (vz (cameraPosition ?b1) - vz (cameraPosition b))"
    using fa(1) fb(1) by (simp add: sa(2) sb(2) h currentSpeed_def)
  have ih: "vx (cameraPosition (frames p q ds ?a1)) - vx (cameraPosition ?a1) =
           2 * (vx (cameraPosition (frames p q ds ?b1)) - vx (cameraPosition ?b1)) \<and>
         vz (cameraPosition (frames p q ds ?a1)) - vz (cameraPosition ?a1) =
           2 * (vz (cameraPosition (frames p q ds ?b1)) - vz (cameraPosition ?b1))"
    by (rule Cons.IH [OF st fa(3) fb(3) ra rb])
  from ih xa za show ?case by simp
qed

lemma sqrt_doubled: "sqrt ((2 * a)\<^sup>2 + (2 * b)\<^sup>2) = 2 * sqrt (a\<^sup>2 + b\<^sup>2)"
proof -
  have e: "(2 * a)\<^sup>2 + (2 * b)\<^sup>2 = 2\<^sup>2 * (a\<^sup>2 + b\<^sup>2)"
    by (simp add: power2_eq_square algebra_simps)
  show ?thesis
    by (simp only: e real_sqrt_mult real_sqrt_abs abs_numeral)
qed

text \<open>
  Claim C2. Take a state whose camera sits at its smoothed position, and run the same
  elapsed times with the same keys twice: once over a road map on which every frame
  tests on road, once over a road map on which every frame tests off road, no frame
  colliding and none cut by the world clamp. Then the horizontal displacement of the
  first run is exactly twice that of the second, in each coordinate and in distance.
\<close>

theorem road_speed_ratio:
  assumes "settled s"
    and "everyFrame (onRoadFrame p q) p q deltas (s\<lparr>roadMap := RA\<rparr>)"
    and "everyFrame (offRoadFrame p q) p q deltas (s\<lparr>roadMap := RB\<rparr>)"
  shows "vx (cameraPosition (frames p q deltas (s\<lparr>roadMap := RA\<rparr>))) - vx (cameraPosition s) =
           2 * (vx (cameraPosition (frames p q deltas (s\<lparr>roadMap := RB\<rparr>))) - vx (cameraPosition s)) \<and>
         vz (cameraPosition (frames p q deltas (s\<lparr>roadMap := RA\<rparr>))) - vz (cameraPosition s) =
           2 * (vz (cameraPosition (frames p q deltas (s\<lparr>roadMap := RB\<rparr>))) - vz (cameraPosition s)) \<and>
         horizontalDistance (cameraPosition s)
             (cameraPosition (frames p q deltas (s\<lparr>roadMap := RA\<rparr>))) =
           2 * horizontalDistance (cameraPosition s)
             (cameraPosition (frames p q deltas (s\<lparr>roadMap := RB\<rparr>)))"
proof -
  let ?a = "s\<lparr>roadMap := RA\<rparr>" and ?b = "s\<lparr>roadMap := RB\<rparr>"
  have st: "sameSteering ?a ?b" by (simp add: sameSteering_def)
  have sa: "settled ?a" and sb: "settled ?b" using assms(1) by (simp_all add: settled_def)
  have r: "vx (cameraPosition (frames p q deltas ?a)) - vx (cameraPosition ?a) =
           2 * (vx (cameraPosition (frames p q deltas ?b)) - vx (cameraPosition ?b)) \<and>
         vz (cameraPosition (frames p q deltas ?a)) - vz (cameraPosition ?a) =
           2 * (vz (cameraPosition (frames p q deltas ?b)) - vz (cameraPosition ?b))"
    by (rule road_ratio_run [OF st sa sb assms(2) assms(3)])
  then have x: "vx (cameraPosition (frames p q deltas ?a)) - vx (cameraPosition s) =
           2 * (vx (cameraPosition (frames p q deltas ?b)) - vx (cameraPosition s))"
    and z: "vz (cameraPosition (frames p q deltas ?a)) - vz (cameraPosition s) =
           2 * (vz (cameraPosition (frames p q deltas ?b)) - vz (cameraPosition s))"
    by simp_all
  have d: "horizontalDistance (cameraPosition s) (cameraPosition (frames p q deltas ?a)) =
           2 * horizontalDistance (cameraPosition s) (cameraPosition (frames p q deltas ?b))"
    unfolding horizontalDistance_def x z by (rule sqrt_doubled)
  from x z d show ?thesis by simp
qed

text \<open>
  An instance: W held from the spawn point of the empty city for a frame of 1/60 s and
  a frame of 1/30 s, once with every cell a road and once with none: 0.1 units north
  against 0.05.
\<close>

lemma walker_on:
  "walking UNIV (walker\<lparr>roadMap := UNIV\<rparr>) 0"
  "walking UNIV (useFrame openProps id (1 / 60) (walker\<lparr>roadMap := UNIV\<rparr>)) (- (2 / 100))"
  "walking UNIV (frames openProps id [1 / 60, 1 / 30] (walker\<lparr>roadMap := UNIV\<rparr>)) (- (10 / 100))"
proof -
  have s: "speed openProps = 4 / 100"
    by (simp add: openProps_def cityCanvasProps_def)
  show w0: "walking UNIV (walker\<lparr>roadMap := UNIV\<rparr>) 0"
    using walker_walking by (simp add: walking_def)
  show w1: "walking UNIV (useFrame openProps id (1 / 60) (walker\<lparr>roadMap := UNIV\<rparr>)) (- (2 / 100))"
    using walking_frame [OF w0, of openProps "1 / 60" id] by (simp add: onroad_speed s)
  show "walking UNIV (frames openProps id [1 / 60, 1 / 30] (walker\<lparr>roadMap := UNIV\<rparr>)) (- (10 / 100))"
    using walking_frame [OF w1, of openProps "1 / 30" id]
    by (simp add: onroad_speed walking_def [of UNIV "useFrame openProps id (1 / 60) (walker\<lparr>roadMap := UNIV\<rparr>)"] useFrame_keys s)
qed

lemma walker_off:
  "walking {} (walker\<lparr>roadMap := {}\<rparr>) 0"
  "walking {} (useFrame openProps id (1 / 60) (walker\<lparr>roadMap := {}\<rparr>)) (- (1 / 100))"
  "walking {} (frames openProps id [1 / 60, 1 / 30] (walker\<lparr>roadMap := {}\<rparr>)) (- (5 / 100))"
proof -
  have s: "speed openProps = 4 / 100"
    by (simp add: openProps_def cityCanvasProps_def)
  show w0: "walking {} (walker\<lparr>roadMap := {}\<rparr>) 0"
    using walker_walking by (simp add: walking_def)
  show w1: "walking {} (useFrame openProps id (1 / 60) (walker\<lparr>roadMap := {}\<rparr>)) (- (1 / 100))"
    using walking_frame [OF w0, of openProps "1 / 60" id] by (simp add: offroad_speed s)
  show "walking {} (frames openProps id [1 / 60, 1 / 30] (walker\<lparr>roadMap := {}\<rparr>)) (- (5 / 100))"
    using walking_frame [OF w1, of openProps "1 / 30" id]
    by (simp add: offroad_speed walking_def [of "{}" "useFrame openProps id (1 / 60) (walker\<lparr>roadMap := {}\<rparr>)"] useFrame_keys s)
qed

lemma walking_onRoadFrame:
  assumes "walking UNIV s z" and "walking UNIV (useFrame p q delta s) z'"
  shows "onRoadFrame p q delta s"
  using walking_not_collides [OF assms(1)] walking_settled [OF assms(2)] assms(1)
  by (simp add: onRoadFrame_def useFrame_isOnRoadRef isOnRoad_def walking_def Let_def)

lemma walking_offRoadFrame:
  assumes "walking {} s z" and "walking {} (useFrame p q delta s) z'"
  shows "offRoadFrame p q delta s"
  using walking_not_collides [OF assms(1)] walking_settled [OF assms(2)] assms(1)
  by (simp add: offRoadFrame_def useFrame_isOnRoadRef isOnRoad_def walking_def Let_def)

theorem road_speed_ratio_witness:
  "settled walker \<and>
   everyFrame (onRoadFrame openProps id) openProps id [1 / 60, 1 / 30] (walker\<lparr>roadMap := UNIV\<rparr>) \<and>
   everyFrame (offRoadFrame openProps id) openProps id [1 / 60, 1 / 30] (walker\<lparr>roadMap := {}\<rparr>) \<and>
   vz (cameraPosition (frames openProps id [1 / 60, 1 / 30] (walker\<lparr>roadMap := UNIV\<rparr>))) = - (10 / 100) \<and>
   vz (cameraPosition (frames openProps id [1 / 60, 1 / 30] (walker\<lparr>roadMap := {}\<rparr>))) = - (5 / 100) \<and>
   horizontalDistance (cameraPosition walker)
       (cameraPosition (frames openProps id [1 / 60, 1 / 30] (walker\<lparr>roadMap := UNIV\<rparr>))) =
     2 * horizontalDistance (cameraPosition walker)
       (cameraPosition (frames openProps id [1 / 60, 1 / 30] (walker\<lparr>roadMap := {}\<rparr>)))"
proof -
  have s: "settled walker" by (rule walking_settled [OF walker_walking])
  have a: "everyFrame (onRoadFrame openProps id) openProps id [1 / 60, 1 / 30] (walker\<lparr>roadMap := UNIV\<rparr>)"
    using walking_onRoadFrame [OF walker_on(1) walker_on(2)]
      walking_onRoadFrame [OF walker_on(2), of openProps id "1 / 30" "- (10 / 100)"] walker_on(3)
    by simp
  have b: "everyFrame (offRoadFrame openProps id) openProps id [1 / 60, 1 / 30] (walker\<lparr>roadMap := {}\<rparr>)"
    using walking_offRoadFrame [OF walker_off(1) walker_off(2)]
      walking_offRoadFrame [OF walker_off(2), of openProps id "1 / 30" "- (5 / 100)"] walker_off(3)
    by simp
  have za: "vz (cameraPosition (frames openProps id [1 / 60, 1 / 30] (walker\<lparr>roadMap := UNIV\<rparr>))) = - (10 / 100)"
    using walker_on(3) by (simp add: walking_def)
  have zb: "vz (cameraPosition (frames openProps id [1 / 60, 1 / 30] (walker\<lparr>roadMap := {}\<rparr>))) = - (5 / 100)"
    using walker_off(3) by (simp add: walking_def)
  show ?thesis
    using road_speed_ratio [OF s a b] s a b za zb by simp
qed

section \<open>Vertical motion\<close>

lemma before_gravity_keeps:
  "velocity (rotateKeys q delta s) = velocity s"
  "canJump (rotateKeys q delta s) = canJump s"
  "cameraHeightOffset (rotateKeys q delta s) = cameraHeightOffset s"
  "bobTime (rotateKeys q delta s) = bobTime s"
  "velocity (smoothRotation delta s) = velocity s"
  "canJump (smoothRotation delta s) = canJump s"
  "cameraHeightOffset (smoothRotation delta s) = cameraHeightOffset s"
  "bobTime (smoothRotation delta s) = bobTime s"
  "velocity (proposeMove p delta s) = velocity s"
  "canJump (proposeMove p delta s) = canJump s"
  "cameraHeightOffset (proposeMove p delta s) = cameraHeightOffset s"
  "bobTime (proposeMove p delta s) = bobTime s"
  "velocity (resolveMove p delta s) = velocity s"
  "canJump (resolveMove p delta s) = canJump s"
  "cameraHeightOffset (resolveMove p delta s) = cameraHeightOffset s"
  "bobTime (resolveMove p delta s) = bobTime s"
  "vy (cameraPosition (resolveMove p delta s)) = vy (cameraPosition s)"
  by (simp_all add: rotateKeys_def smoothRotation_def proposeMove_def resolveMove_def Let_def)

lemma heightKeys_vertical:
  "velocity (heightKeys s) = velocity s"
  "canJump (heightKeys s) = canJump s"
  "bobTime (heightKeys s) = bobTime s"
  by (simp_all add: heightKeys_def Let_def)

lemma heightKeys_idle:
  "\<not> moveUp s \<Longrightarrow> \<not> moveDown s \<Longrightarrow> cameraHeightOffset (heightKeys s) = cameraHeightOffset s"
  by (simp add: heightKeys_def Let_def)

lemma gravityStep_on:
  assumes "enableGravity p"
  shows "vy (velocity (gravityStep p s)) =
           (if vy (cameraPosition s) \<le> groundTarget p s \<and> vy (velocity s) - 1 / 100 \<le> 0
            then 0 else vy (velocity s) - 1 / 100)"
    and "vy (cameraPosition (gravityStep p s)) =
           (if vy (cameraPosition s) \<le> groundTarget p s \<and> vy (velocity s) - 1 / 100 \<le> 0
            then groundTarget p s else vy (cameraPosition s) + (vy (velocity s) - 1 / 100))"
    and "canJump (gravityStep p s) =
           ((vy (cameraPosition s) \<le> groundTarget p s \<and> vy (velocity s) - 1 / 100 \<le> 0) \<or> canJump s)"
  using assms by (auto simp add: gravityStep_def groundTarget_def getGroundHeight_def Let_def)

lemma gravityStep_base:
  "baseHeightRef (gravityStep p s) = playerHeight p + cameraHeightOffset s"
  "cameraHeightOffset (gravityStep p s) = cameraHeightOffset s"
  "bobTime (gravityStep p s) = bobTime s"
  by (simp_all add: gravityStep_def getGroundHeight_def Let_def)

lemma cameraBob_still:
  assumes "\<not> moveForward s" and "\<not> moveBackward s"
  shows "vy (cameraPosition (cameraBob p delta s)) =
           (if \<not> enableGravity p \<or> canJump s then baseHeightRef s else vy (cameraPosition s))"
  using assms by (simp add: cameraBob_def Let_def)

lemma cameraBob_vertical:
  "velocity (cameraBob p delta s) = velocity s"
  "canJump (cameraBob p delta s) = canJump s"
  "cameraHeightOffset (cameraBob p delta s) = cameraHeightOffset s"
  "baseHeightRef (cameraBob p delta s) = baseHeightRef s"
  by (simp_all add: cameraBob_def Let_def)

lemma clampToWorld_vertical:
  "velocity (clampToWorld s) = velocity s"
  "canJump (clampToWorld s) = canJump s"
  "cameraHeightOffset (clampToWorld s) = cameraHeightOffset s"
  "baseHeightRef (clampToWorld s) = baseHeightRef s"
  "bobTime (clampToWorld s) = bobTime s"
  by (simp_all add: clampToWorld_def Let_def)

lemmas vertical_keeps = before_gravity_keeps heightKeys_vertical gravityStep_base
  cameraBob_vertical clampToWorld_vertical clampToWorld_keeps(3) heightKeys_keeps(1)
  rotateKeys_keeps(10) smoothRotation_keeps(10) proposeMove_keeps(11)

lemma groundTarget_eq:
  "groundTarget p s = playerHeight p + cameraHeightOffset s"
  by (simp add: groundTarget_def getGroundHeight_def)

text \<open>A frame with gravity on and no movement or height key held.\<close>

lemma idle_frame:
  assumes "enableGravity p" and "idle s"
  shows "vy (velocity (useFrame p q delta s)) =
           (if vy (cameraPosition s) \<le> groundTarget p s \<and> vy (velocity s) - 1 / 100 \<le> 0
            then 0 else vy (velocity s) - 1 / 100)"
    and "canJump (useFrame p q delta s) =
           ((vy (cameraPosition s) \<le> groundTarget p s \<and> vy (velocity s) - 1 / 100 \<le> 0) \<or> canJump s)"
    and "vy (cameraPosition (useFrame p q delta s)) =
           (if (vy (cameraPosition s) \<le> groundTarget p s \<and> vy (velocity s) - 1 / 100 \<le> 0) \<or> canJump s
            then groundTarget p s else vy (cameraPosition s) + (vy (velocity s) - 1 / 100))"
    and "groundTarget p (useFrame p q delta s) = groundTarget p s"
    and "idle (useFrame p q delta s)"
proof -
  let ?m = "moveStep p delta (smoothRotation delta (rotateKeys q delta s))"
  let ?h = "heightKeys ?m"
  let ?g = "gravityStep p ?h"
  from assms(2) have k: "\<not> moveForward s" "\<not> moveBackward s" "\<not> moveUp s" "\<not> moveDown s"
    by (simp_all add: idle_def)
  have m: "velocity ?m = velocity s" "canJump ?m = canJump s"
      "cameraHeightOffset ?m = cameraHeightOffset s"
      "vy (cameraPosition ?m) = vy (cameraPosition s)"
      "moveUp ?m = moveUp s" "moveDown ?m = moveDown s"
      "moveForward ?m = moveForward s" "moveBackward ?m = moveBackward s"
    by (simp_all add: moveStep_def vertical_keeps block_keeps)
  have h: "velocity ?h = velocity s" "canJump ?h = canJump s"
      "cameraHeightOffset ?h = cameraHeightOffset s"
      "vy (cameraPosition ?h) = vy (cameraPosition s)"
      "moveForward ?h = moveForward s" "moveBackward ?h = moveBackward s"
    using k by (simp_all add: vertical_keeps block_keeps m heightKeys_idle)
  have t: "groundTarget p ?h = groundTarget p s"
    by (simp add: groundTarget_eq h)
  have still: "\<not> moveForward ?g" "\<not> moveBackward ?g"
    using k by (simp_all add: block_keeps m moveStep_def)
  have base: "baseHeightRef ?g = groundTarget p s"
    by (simp add: gravityStep_base groundTarget_eq h)
  show "vy (velocity (useFrame p q delta s)) =
           (if vy (cameraPosition s) \<le> groundTarget p s \<and> vy (velocity s) - 1 / 100 \<le> 0
            then 0 else vy (velocity s) - 1 / 100)"
    by (simp add: useFrame_def vertical_keeps gravityStep_on(1) [OF assms(1)] m h t)
  show "canJump (useFrame p q delta s) =
           ((vy (cameraPosition s) \<le> groundTarget p s \<and> vy (velocity s) - 1 / 100 \<le> 0) \<or> canJump s)"
    by (simp add: useFrame_def vertical_keeps gravityStep_on(3) [OF assms(1)] m h t)
  show "vy (cameraPosition (useFrame p q delta s)) =
           (if (vy (cameraPosition s) \<le> groundTarget p s \<and> vy (velocity s) - 1 / 100 \<le> 0) \<or> canJump s
            then groundTarget p s else vy (cameraPosition s) + (vy (velocity s) - 1 / 100))"
    using assms(1)
    by (simp add: useFrame_def vertical_keeps cameraBob_still [OF still] base
        gravityStep_on [OF assms(1)] m h t groundTarget_eq)
  show "groundTarget p (useFrame p q delta s) = groundTarget p s"
    by (simp add: groundTarget_eq useFrame_def vertical_keeps m h)
  show "idle (useFrame p q delta s)"
    using assms(2) by (simp add: idle_def useFrame_keys)
qed

section \<open>Jump and landing\<close>

text \<open>
  With gravity on and no movement or height key held, a grounded player stays
  grounded, and from any state whatever (any height, any vertical velocity) the
  player is grounded after some number of frames and from then on: the velocity
  loses 0.01 a frame, so it turns negative, and then the height falls by at least 0.01
  a frame until it is at or below the ground target, where the next frame lands. The
  bound found is coarse; only its existence is used.
\<close>

lemma grounded_stays_frame:
  assumes "enableGravity p" and "grounded p s" and "idle s"
  shows "grounded p (useFrame p q delta s)"
proof -
  from assms(2) have g: "canJump s" "vy (velocity s) = 0" "vy (cameraPosition s) = groundTarget p s"
    by (simp_all add: grounded_def)
  note f = idle_frame [OF assms(1,3), of q delta]
  show ?thesis by (simp add: grounded_def f g)
qed

lemma grounded_stays_run:
  assumes "enableGravity p" and "grounded p s" and "idle s"
  shows "grounded p (frames p q ds s)"
  using assms(2,3)
proof (induction ds arbitrary: s)
  case Nil
  then show ?case by simp
next
  case (Cons d ds)
  have g: "grounded p (useFrame p q d s)"
    by (rule grounded_stays_frame [OF assms(1) Cons.prems])
  have i: "idle (useFrame p q d s)"
    by (rule idle_frame(5) [OF assms(1) Cons.prems(2)])
  show ?case using Cons.IH [OF g i] by simp
qed

lemma landing_frame:
  assumes "enableGravity p" and "idle s"
    and "vy (cameraPosition s) \<le> groundTarget p s" and "vy (velocity s) - 1 / 100 \<le> 0"
  shows "grounded p (useFrame p q delta s)"
proof -
  note f = idle_frame [OF assms(1,2), of q delta]
  show ?thesis using assms(3,4) by (simp add: grounded_def f)
qed

lemma grounded_from_mono:
  assumes "\<forall>ds. N \<le> length ds \<longrightarrow> grounded p (frames p q ds s)" and "N \<le> M"
  shows "\<forall>ds. M \<le> length ds \<longrightarrow> grounded p (frames p q ds s)"
  using assms by auto

lemma grounded_from_step:
  assumes "\<And>delta. \<forall>ds. N \<le> length ds \<longrightarrow> grounded p (frames p q ds (useFrame p q delta s))"
  shows "\<forall>ds. Suc N \<le> length ds \<longrightarrow> grounded p (frames p q ds s)"
proof (intro allI impI)
  fix ds :: "real list"
  assume l: "Suc N \<le> length ds"
  then obtain d ds' where e: "ds = d # ds'" by (cases ds) auto
  with l have "N \<le> length ds'" by simp
  with assms [of d] show "grounded p (frames p q ds s)" by (simp add: e)
qed

lemma landing_from:
  assumes "enableGravity p" and "idle s"
    and "vy (cameraPosition s) \<le> groundTarget p s" and "vy (velocity s) - 1 / 100 \<le> 0"
  shows "\<forall>ds. Suc 0 \<le> length ds \<longrightarrow> grounded p (frames p q ds s)"
proof (rule grounded_from_step)
  fix delta
  have g: "grounded p (useFrame p q delta s)"
    by (rule landing_frame [OF assms])
  have i: "idle (useFrame p q delta s)"
    by (rule idle_frame(5) [OF assms(1,2)])
  show "\<forall>ds. 0 \<le> length ds \<longrightarrow> grounded p (frames p q ds (useFrame p q delta s))"
    using grounded_stays_run [OF assms(1) g i] by simp
qed

lemma falling_lands:
  assumes "enableGravity p" and "idle s" and "vy (velocity s) \<le> 0"
    and "vy (cameraPosition s) - groundTarget p s \<le> real k / 100"
  shows "\<forall>ds. Suc k \<le> length ds \<longrightarrow> grounded p (frames p q ds s)"
  using assms(2,3,4)
proof (induction k arbitrary: s)
  case 0
  then show ?case by (intro landing_from [OF assms(1)]) simp_all
next
  case (Suc k)
  show ?case
  proof (cases "vy (cameraPosition s) \<le> groundTarget p s")
    case True
    have "\<forall>ds. Suc 0 \<le> length ds \<longrightarrow> grounded p (frames p q ds s)"
      using Suc.prems(2) by (intro landing_from [OF assms(1) Suc.prems(1) True]) simp
    then show ?thesis by (rule grounded_from_mono) simp
  next
    case False
    show ?thesis
    proof (rule grounded_from_step)
      fix delta
      note f = idle_frame [OF assms(1) Suc.prems(1), of q delta]
      have v: "vy (velocity (useFrame p q delta s)) \<le> 0"
        using Suc.prems(2) False by (simp add: f(1))
      have y: "vy (cameraPosition (useFrame p q delta s)) - groundTarget p (useFrame p q delta s)
          \<le> real k / 100"
        using Suc.prems(2,3) False by (simp add: f(3) f(4) field_simps)
      show "\<forall>ds. Suc k \<le> length ds \<longrightarrow> grounded p (frames p q ds (useFrame p q delta s))"
        by (rule Suc.IH [OF f(5) v y])
    qed
  qed
qed

lemma rising_lands:
  assumes "enableGravity p" and "idle s" and "vy (velocity s) \<le> real j / 100"
    and "vy (cameraPosition s) - groundTarget p s \<le> real k / 100"
  shows "\<forall>ds. Suc (j + k + j * j) \<le> length ds \<longrightarrow> grounded p (frames p q ds s)"
  using assms(2,3,4)
proof (induction j arbitrary: s k)
  case 0
  then show ?case using falling_lands [OF assms(1), of s k q] by simp
next
  case (Suc j)
  show ?case
  proof (cases "vy (cameraPosition s) \<le> groundTarget p s \<and> vy (velocity s) - 1 / 100 \<le> 0")
    case True
    then have "\<forall>ds. Suc 0 \<le> length ds \<longrightarrow> grounded p (frames p q ds s)"
      by (intro landing_from [OF assms(1) Suc.prems(1)]) simp_all
    then show ?thesis by (rule grounded_from_mono) simp
  next
    case False
    have "\<forall>ds. Suc (Suc (j + (k + j) + j * j)) \<le> length ds \<longrightarrow> grounded p (frames p q ds s)"
    proof (rule grounded_from_step)
      fix delta
      note f = idle_frame [OF assms(1) Suc.prems(1), of q delta]
      have v: "vy (velocity (useFrame p q delta s)) \<le> real j / 100"
        using Suc.prems(2) by (simp only: f(1) False if_False) (simp add: field_simps)
      have y: "vy (cameraPosition (useFrame p q delta s)) - groundTarget p (useFrame p q delta s)
          \<le> real (k + j) / 100"
      proof (cases "canJump s")
        case True
        then show ?thesis by (simp add: f(3) f(4))
      next
        case c: False
        have "vy (cameraPosition (useFrame p q delta s)) =
            vy (cameraPosition s) + (vy (velocity s) - 1 / 100)"
          by (simp only: f(3) False c simp_thms if_False)
        then show ?thesis using Suc.prems(2,3) by (simp add: f(4) field_simps)
      qed
      show "\<forall>ds. Suc (j + (k + j) + j * j) \<le> length ds \<longrightarrow>
          grounded p (frames p q ds (useFrame p q delta s))"
        by (rule Suc.IH [OF f(5) v y])
    qed
    then show ?thesis by (rule grounded_from_mono) simp
  qed
qed

lemma eventually_grounded:
  assumes "enableGravity p" and "idle s"
  shows "\<exists>N. \<forall>ds. N \<le> length ds \<longrightarrow> grounded p (frames p q ds s)"
proof -
  obtain j :: nat where j: "vy (velocity s) * 100 \<le> real j"
    using real_arch_simple by blast
  obtain k :: nat where k: "(vy (cameraPosition s) - groundTarget p s) * 100 \<le> real k"
    using real_arch_simple by blast
  have "\<forall>ds. Suc (j + k + j * j) \<le> length ds \<longrightarrow> grounded p (frames p q ds s)"
    using j k by (intro rising_lands [OF assms]) (simp_all add: field_simps)
  then show ?thesis by blast
qed

text \<open>
  Claim C8. With gravity on, take a grounded state (jump-eligible, vertical velocity 0,
  at the ground target height) with no movement or height key held, and press Space.
  The jump clears the jump eligibility and sets the vertical velocity to 0.15, above 0:
  the player is no longer grounded. Then, frames running with no further input and
  whatever their elapsed times, there is a finite number of frames after which (and
  from which on) the state is grounded again: jump re-enabled, vertical velocity 0,
  height equal to the ground target.
\<close>

theorem jump_round_trip:
  assumes "enableGravity p" and "grounded p s" and "idle s"
  shows "\<not> canJump (handleKeyDown Space s) \<and>
         vy (velocity (handleKeyDown Space s)) = 15 / 100 \<and>
         0 < vy (velocity (handleKeyDown Space s)) \<and>
         \<not> grounded p (handleKeyDown Space s) \<and>
         (\<exists>N. \<forall>ds. N \<le> length ds \<longrightarrow>
            grounded p (frames p q ds (handleKeyDown Space s)))"
proof -
  define j where "j = handleKeyDown Space s"
  from assms(2) have g: "canJump s" "vy (velocity s) = 0"
    by (simp_all add: grounded_def)
  have c: "\<not> canJump j" and v: "vy (velocity j) = 15 / 100"
    using g by (simp_all add: j_def)
  have i: "idle j" using assms(3) g by (simp add: j_def idle_def)
  have n: "\<not> grounded p j" using c by (simp add: grounded_def)
  have e: "\<exists>N. \<forall>ds. N \<le> length ds \<longrightarrow> grounded p (frames p q ds j)"
    by (rule eventually_grounded [OF assms(1) i])
  from c v n e have "\<not> canJump j \<and> vy (velocity j) = 15 / 100 \<and> 0 < vy (velocity j) \<and>
      \<not> grounded p j \<and> (\<exists>N. \<forall>ds. N \<le> length ds \<longrightarrow> grounded p (frames p q ds j))"
    by simp
  then show ?thesis unfolding j_def .
qed

text \<open>
  An instance: a jump from standing at the spawn point; after some number of frames
  at 60 Hz the player stands again.
\<close>

lemma standing_facts:
  "enableGravity openProps" "grounded openProps standing" "idle standing"
  by (simp_all add: standing_def openProps_def cityCanvasProps_def teleportPlayer_def
      mount_def initEffect_def initialRefs_def grounded_def groundTarget_eq idle_def Let_def)

theorem jump_round_trip_witness:
  "enableGravity openProps \<and> grounded openProps standing \<and> idle standing \<and>
   0 < vy (velocity (handleKeyDown Space standing)) \<and>
   \<not> canJump (handleKeyDown Space standing) \<and>
   (\<exists>N. grounded openProps
      (frames openProps id (replicate N (1 / 60)) (handleKeyDown Space standing)))"
proof -
  note t = jump_round_trip [OF standing_facts, of id]
  from t obtain N where
    n: "\<forall>ds. N \<le> length ds \<longrightarrow>
      grounded openProps (frames openProps id ds (handleKeyDown Space standing))"
    by blast
  have "N \<le> length (replicate N (1 / 60 :: real))" by simp
  with n have "grounded openProps
      (frames openProps id (replicate N (1 / 60)) (handleKeyDown Space standing))"
    by blast
  then have e: "\<exists>N. grounded openProps
      (frames openProps id (replicate N (1 / 60)) (handleKeyDown Space standing))"
    by blast
  from t standing_facts e show ?thesis by blast
qed

section \<open>Camera bob\<close>

text \<open>
  The blocks before the gravity block neither read nor write the vertical velocity
  and the jump eligibility.
\<close>

lemma checkCollision_jump:
  "checkCollision p (s\<lparr>velocity := v, canJump := c\<rparr>) n = checkCollision p s n"
  by (simp add: checkCollision_def)

lemma before_gravity_jump:
  "rotateKeys q delta (s\<lparr>velocity := v, canJump := c\<rparr>) =
     (rotateKeys q delta s)\<lparr>velocity := v, canJump := c\<rparr>"
  "smoothRotation delta (s\<lparr>velocity := v, canJump := c\<rparr>) =
     (smoothRotation delta s)\<lparr>velocity := v, canJump := c\<rparr>"
  "proposeMove p delta (s\<lparr>velocity := v, canJump := c\<rparr>) =
     (proposeMove p delta s)\<lparr>velocity := v, canJump := c\<rparr>"
  "resolveMove p delta (s\<lparr>velocity := v, canJump := c\<rparr>) =
     (resolveMove p delta s)\<lparr>velocity := v, canJump := c\<rparr>"
  "heightKeys (s\<lparr>velocity := v, canJump := c\<rparr>) = (heightKeys s)\<lparr>velocity := v, canJump := c\<rparr>"
  by (simp_all add: rotateKeys_def smoothRotation_def proposeMove_def resolveMove_def
      heightKeys_def isOnRoad_def moveDirection_def checkCollision_jump Let_def)

lemma moveStep_jump:
  "moveStep p delta (s\<lparr>velocity := v, canJump := c\<rparr>) =
     (moveStep p delta s)\<lparr>velocity := v, canJump := c\<rparr>"
  by (simp add: moveStep_def before_gravity_jump)

lemma gravityStep_jump:
  "gravityStep p (s\<lparr>velocity := v, canJump := c\<rparr>) =
     (gravityStep p s)
       \<lparr>velocity := velocity (gravityStep p (s\<lparr>velocity := v, canJump := c\<rparr>)),
        canJump := canJump (gravityStep p (s\<lparr>velocity := v, canJump := c\<rparr>)),
        cameraPosition := (cameraPosition (gravityStep p s))
          \<lparr>vy := vy (cameraPosition (gravityStep p (s\<lparr>velocity := v, canJump := c\<rparr>)))\<rparr>\<rparr>"
  by (simp add: gravityStep_def getGroundHeight_def Let_def)

lemma cameraBob_absorbs:
  assumes "enableCameraBob p" and "moveForward g \<or> moveBackward g"
  shows "cameraBob p delta
           (g\<lparr>velocity := v, canJump := c, cameraPosition := (cameraPosition g)\<lparr>vy := y\<rparr>\<rparr>) =
         (cameraBob p delta g)\<lparr>velocity := v, canJump := c\<rparr>"
  using assms by (simp add: cameraBob_def Let_def)

lemma bob_after_gravity_jump:
  assumes "enableCameraBob p" and "moveForward s \<or> moveBackward s"
  shows "\<exists>v' c'. cameraBob p delta (gravityStep p (s\<lparr>velocity := v, canJump := c\<rparr>)) =
           (cameraBob p delta (gravityStep p s))\<lparr>velocity := v', canJump := c'\<rparr>"
proof -
  have mv: "moveForward (gravityStep p s) \<or> moveBackward (gravityStep p s)"
    using assms(2) by (simp add: block_keeps)
  show ?thesis
    by (subst gravityStep_jump) (metis cameraBob_absorbs [OF assms(1) mv])
qed

lemma clampToWorld_jump:
  "clampToWorld (s\<lparr>velocity := v, canJump := c\<rparr>) = (clampToWorld s)\<lparr>velocity := v, canJump := c\<rparr>"
  by (simp add: clampToWorld_def Let_def)

lemma bob_frame_jump:
  assumes "enableCameraBob p" and "moveForward s \<or> moveBackward s"
  shows "\<exists>v' c'. useFrame p q delta (s\<lparr>velocity := v, canJump := c\<rparr>) =
           (useFrame p q delta s)\<lparr>velocity := v', canJump := c'\<rparr>"
proof -
  let ?h = "heightKeys (moveStep p delta (smoothRotation delta (rotateKeys q delta s)))"
  have mv: "moveForward ?h \<or> moveBackward ?h"
    using assms(2) by (simp add: moveStep_def block_keeps)
  obtain v' c' where
    e: "cameraBob p delta (gravityStep p (?h\<lparr>velocity := v, canJump := c\<rparr>)) =
        (cameraBob p delta (gravityStep p ?h))\<lparr>velocity := v', canJump := c'\<rparr>"
    using bob_after_gravity_jump [OF assms(1) mv] by blast
  have "useFrame p q delta (s\<lparr>velocity := v, canJump := c\<rparr>) =
      (useFrame p q delta s)\<lparr>velocity := v', canJump := c'\<rparr>"
    by (simp add: useFrame_def moveStep_jump before_gravity_jump e clampToWorld_jump)
  then show ?thesis by blast
qed

lemma bob_run_jump:
  assumes "enableCameraBob p" and "moveForward s \<or> moveBackward s"
  shows "\<exists>v' c'. frames p q deltas (s\<lparr>velocity := v, canJump := c\<rparr>) =
           (frames p q deltas s)\<lparr>velocity := v', canJump := c'\<rparr>"
  using assms(2)
proof (induction deltas arbitrary: s v c)
  case Nil
  show ?case by auto
next
  case (Cons d ds)
  obtain v1 c1 where
    e: "useFrame p q d (s\<lparr>velocity := v, canJump := c\<rparr>) =
        (useFrame p q d s)\<lparr>velocity := v1, canJump := c1\<rparr>"
    using bob_frame_jump [OF assms(1) Cons.prems] by blast
  have mv: "moveForward (useFrame p q d s) \<or> moveBackward (useFrame p q d s)"
    using Cons.prems by (simp add: useFrame_keys)
  have "\<exists>v' c'. frames p q ds ((useFrame p q d s)\<lparr>velocity := v1, canJump := c1\<rparr>) =
      (frames p q ds (useFrame p q d s))\<lparr>velocity := v', canJump := c'\<rparr>"
    by (rule Cons.IH [OF mv])
  then show ?case by (simp add: e)
qed

lemma handleKeyDown_Space_shape:
  "\<exists>v c. handleKeyDown Space s = s\<lparr>velocity := v, canJump := c\<rparr>"
proof (cases "canJump s")
  case True
  then show ?thesis by auto
next
  case False
  have "s = s\<lparr>velocity := velocity s, canJump := canJump s\<rparr>" by simp
  moreover from False have "handleKeyDown Space s = s" by simp
  ultimately show ?thesis by metis
qed

lemma bob_frame:
  assumes "enableCameraBob p" and "moveForward s \<or> moveBackward s"
  shows "bobTime (useFrame p q delta s) = bobTime s + delta * bobSpeed"
    and "baseHeightRef (useFrame p q delta s) =
           playerHeight p + cameraHeightOffset (useFrame p q delta s)"
    and "vy (cameraPosition (useFrame p q delta s)) =
           baseHeightRef (useFrame p q delta s) + sin (bobTime (useFrame p q delta s)) * bobAmount"
proof -
  let ?g = "gravityStep p (heightKeys (moveStep p delta (smoothRotation delta (rotateKeys q delta s))))"
  have mv: "moveForward ?g \<or> moveBackward ?g"
    using assms(2) by (simp add: moveStep_def block_keeps)
  have bt: "bobTime ?g = bobTime s"
    by (simp add: moveStep_def vertical_keeps)
  have b: "bobTime (cameraBob p delta ?g) = bobTime ?g + delta * bobSpeed"
      "vy (cameraPosition (cameraBob p delta ?g)) =
         baseHeightRef ?g + sin (bobTime ?g + delta * bobSpeed) * bobAmount"
    using assms(1) mv by (simp_all add: cameraBob_def Let_def)
  show "bobTime (useFrame p q delta s) = bobTime s + delta * bobSpeed"
    by (simp add: useFrame_def clampToWorld_vertical b bt)
  show "baseHeightRef (useFrame p q delta s) =
           playerHeight p + cameraHeightOffset (useFrame p q delta s)"
    by (simp add: useFrame_def vertical_keeps)
  show "vy (cameraPosition (useFrame p q delta s)) =
           baseHeightRef (useFrame p q delta s) + sin (bobTime (useFrame p q delta s)) * bobAmount"
    by (simp add: useFrame_def clampToWorld_vertical clampToWorld_keeps(3) cameraBob_vertical b)
qed

lemma jump_then_frame:
  assumes "enableGravity p" and "canJump s" and "vy (velocity s) = 0"
  shows "vy (velocity (useFrame p q delta (handleKeyDown Space s))) = 14 / 100"
    and "\<not> canJump (useFrame p q delta (handleKeyDown Space s))"
proof -
  define j where "j = handleKeyDown Space s"
  have j: "vy (velocity j) = 15 / 100" "\<not> canJump j"
    using assms(2,3) by (simp_all add: j_def)
  let ?h = "heightKeys (moveStep p delta (smoothRotation delta (rotateKeys q delta j)))"
  have h: "vy (velocity ?h) = 15 / 100" "\<not> canJump ?h"
    using j by (simp_all add: moveStep_def vertical_keeps)
  have "vy (velocity (useFrame p q delta j)) = 14 / 100"
    by (simp add: useFrame_def clampToWorld_vertical cameraBob_vertical
        gravityStep_on(1) [OF assms(1)] h)
  then show "vy (velocity (useFrame p q delta (handleKeyDown Space s))) = 14 / 100"
    unfolding j_def .
  have "\<not> canJump (useFrame p q delta j)"
    by (simp add: useFrame_def clampToWorld_vertical cameraBob_vertical
        gravityStep_on(3) [OF assms(1)] h)
  then show "\<not> canJump (useFrame p q delta (handleKeyDown Space s))"
    unfolding j_def .
qed

text \<open>
  Claim C10. On a frame with camera bob enabled and W or S held, the height the
  frame publishes is \<open>baseHeight + sin bobPhase * bobAmount\<close>, with the advanced
  phase \<open>bobTime + delta * bobSpeed\<close> and the base height
  \<open>playerHeight + cameraHeightOffset\<close>: the bob block assigns it after the gravity
  block and overwrites what gravity computed. So a jump while the key is held changes
  nothing in the camera position of any later frame of the run, although the
  vertical velocity does evolve (after a jump from rest and one frame under gravity it
  is 0.14, and the jump is disabled).
\<close>

theorem camera_bob_overrides_vertical:
  assumes "enableCameraBob p" and "moveForward s \<or> moveBackward s"
  shows "vy (cameraPosition (useFrame p q delta s)) =
           baseHeightRef (useFrame p q delta s) + sin (bobTime (useFrame p q delta s)) * bobAmount \<and>
         baseHeightRef (useFrame p q delta s) =
           playerHeight p + cameraHeightOffset (useFrame p q delta s) \<and>
         bobTime (useFrame p q delta s) = bobTime s + delta * bobSpeed \<and>
         cameraPosition (frames p q deltas (handleKeyDown Space s)) =
           cameraPosition (frames p q deltas s) \<and>
         (enableGravity p \<and> canJump s \<and> vy (velocity s) = 0 \<longrightarrow>
            vy (velocity (useFrame p q delta (handleKeyDown Space s))) = 14 / 100 \<and>
            \<not> canJump (useFrame p q delta (handleKeyDown Space s)))"
proof -
  obtain v c where j: "handleKeyDown Space s = s\<lparr>velocity := v, canJump := c\<rparr>"
    using handleKeyDown_Space_shape by blast
  obtain v' c' where
    "frames p q deltas (s\<lparr>velocity := v, canJump := c\<rparr>) =
       (frames p q deltas s)\<lparr>velocity := v', canJump := c'\<rparr>"
    using bob_run_jump [OF assms] by blast
  then have "cameraPosition (frames p q deltas (s\<lparr>velocity := v, canJump := c\<rparr>)) =
      cameraPosition (frames p q deltas s)"
    by simp
  then have same: "cameraPosition (frames p q deltas (handleKeyDown Space s)) =
      cameraPosition (frames p q deltas s)"
    unfolding j .
  have jt: "enableGravity p \<and> canJump s \<and> vy (velocity s) = 0 \<longrightarrow>
      vy (velocity (useFrame p q delta (handleKeyDown Space s))) = 14 / 100 \<and>
      \<not> canJump (useFrame p q delta (handleKeyDown Space s))"
    using jump_then_frame [of p s q delta] by blast
  note bf = bob_frame [OF assms, of q delta]
  show ?thesis
    by (rule conjI [OF bf(3) conjI [OF bf(2) conjI [OF bf(1) conjI [OF same jt]]]])
qed

text \<open>
  An instance: W held at the spawn point of the empty city, with and without a jump,
  over two frames at 60 Hz.
\<close>

theorem camera_bob_overrides_vertical_witness:
  "enableCameraBob openProps \<and>
   (moveForward (handleKeyDown KeyW standing) \<or> moveBackward (handleKeyDown KeyW standing)) \<and>
   enableGravity openProps \<and> canJump (handleKeyDown KeyW standing) \<and>
   vy (velocity (handleKeyDown KeyW standing)) = 0 \<and>
   cameraPosition (frames openProps id [1 / 60, 1 / 60]
       (handleKeyDown Space (handleKeyDown KeyW standing))) =
     cameraPosition (frames openProps id [1 / 60, 1 / 60] (handleKeyDown KeyW standing)) \<and>
   vy (velocity (useFrame openProps id (1 / 60)
       (handleKeyDown Space (handleKeyDown KeyW standing)))) = 14 / 100"
proof -
  have b: "enableCameraBob openProps" and g: "enableGravity openProps"
    by (simp_all add: openProps_def cityCanvasProps_def)
  have m: "moveForward (handleKeyDown KeyW standing) \<or> moveBackward (handleKeyDown KeyW standing)"
    by simp
  have c: "canJump (handleKeyDown KeyW standing)" "vy (velocity (handleKeyDown KeyW standing)) = 0"
    by (simp_all add: standing_def teleportPlayer_def Let_def)
  show ?thesis
    using camera_bob_overrides_vertical [OF b m, of id "1 / 60" "[1 / 60, 1 / 60]"] b m g c
    by blast
qed

section \<open>Rotation smoothing\<close>

lemma normalizedDeltaY_cases:
  "normalizedDeltaY d = (if d > pi then d - 2 * pi else if d < - pi then d + 2 * pi else d)"
proof -
  have "pi > 0" by (rule pi_gt_zero)
  then show ?thesis by (auto simp add: normalizedDeltaY_def Let_def)
qed

lemma spec_factor_below_one: "spec_rotLerpFactor k delta < 1"
  by (simp add: spec_rotLerpFactor_def)

lemma useFrame_smoothing:
  "ex (currentRotation (useFrame p q delta s)) =
     ex (currentRotation s) +
     (ex (targetRotation (rotateKeys q delta s)) - ex (currentRotation s)) * min 1 (delta * 15)"
  "ey (currentRotation (useFrame p q delta s)) =
     ey (currentRotation s) +
     normalizedDeltaY (ey (targetRotation (rotateKeys q delta s)) - ey (currentRotation s))
       * min 1 (delta * 15)"
  by (simp_all add: useFrame_rotation smoothRotation_def rotLerpFactor_def Let_def
      rotateKeys_keeps)

text \<open>
  Claim C7, as the code has it by design. On every frame the current orientation
  moves toward the target orientation (after the frame's key rotation) by the linear,
  clamped factor \<open>min 1 (delta * 15)\<close>. The pitch moves by that share of the raw
  difference. When the raw yaw difference \<open>d\<close> lies within \<open>[- 3 pi, 3 pi]\<close>, the yaw
  moves by that share of the wrapped difference: \<open>d - 2 pi\<close> when \<open>d\<close> is above \<open>pi\<close>,
  \<open>d + 2 pi\<close> when it is below \<open>- pi\<close>, \<open>d\<close> itself otherwise, a value within
  \<open>[- pi, pi]\<close>. Nothing is stated for a raw yaw difference beyond \<open>3 pi\<close>.
\<close>

theorem rotation_smoothing_law:
  "ex (currentRotation (useFrame p q delta s)) =
     ex (currentRotation s) +
     (ex (targetRotation (rotateKeys q delta s)) - ex (currentRotation s)) * min 1 (delta * 15) \<and>
   (d = ey (targetRotation (rotateKeys q delta s)) - ey (currentRotation s) \<and>
    - (3 * pi) \<le> d \<and> d \<le> 3 * pi \<longrightarrow>
      ey (currentRotation (useFrame p q delta s)) =
        ey (currentRotation s) +
        (if d > pi then d - 2 * pi else if d < - pi then d + 2 * pi else d) * min 1 (delta * 15) \<and>
      - pi \<le> (if d > pi then d - 2 * pi else if d < - pi then d + 2 * pi else d) \<and>
      (if d > pi then d - 2 * pi else if d < - pi then d + 2 * pi else d) \<le> pi)"
proof -
  have y: "ey (currentRotation (useFrame p q delta s)) =
        ey (currentRotation s) +
        (if d > pi then d - 2 * pi else if d < - pi then d + 2 * pi else d) * min 1 (delta * 15)"
    if "d = ey (targetRotation (rotateKeys q delta s)) - ey (currentRotation s)"
    unfolding that by (simp only: useFrame_smoothing(2) normalizedDeltaY_cases)
  have r: "- pi \<le> (if d > pi then d - 2 * pi else if d < - pi then d + 2 * pi else d) \<and>
      (if d > pi then d - 2 * pi else if d < - pi then d + 2 * pi else d) \<le> pi"
    if "- (3 * pi) \<le> d" and "d \<le> 3 * pi"
    using that by simp
  from useFrame_smoothing(1) [of p q delta s] y r show ?thesis by blast
qed

text \<open>
  An instance: from the spawn state with the target yaw turned to 4 (by a mouse
  rotation of -4), a frame of 1/60 s. The raw yaw difference 4 is above \<open>pi\<close> and is
  wrapped to \<open>4 - 2 pi\<close>; the yaw moves by a quarter of that.
\<close>

theorem rotation_smoothing_law_witness:
  "4 = ey (targetRotation (rotateKeys id (1 / 60) (processRotation id 0 (- 4) (mount openProps))))
       - ey (currentRotation (processRotation id 0 (- 4) (mount openProps))) \<and>
   - (3 * pi) \<le> 4 \<and> 4 \<le> 3 * pi \<and>
   ey (currentRotation (useFrame openProps id (1 / 60) (processRotation id 0 (- 4) (mount openProps)))) =
     (4 - 2 * pi) * (1 / 4) \<and>
   - pi \<le> 4 - 2 * pi \<and> 4 - 2 * pi \<le> pi"
proof -
  let ?s = "processRotation id 0 (- 4) (mount openProps)"
  have p2: "2 \<le> pi" by (rule pi_ge_two)
  have p4: "pi < 4" by (rule pi_less_4)
  have t: "targetRotation ?s = \<lparr>ex = 0, ey = 4\<rparr>" and c: "currentRotation ?s = \<lparr>ex = 0, ey = 0\<rparr>"
    and k: "\<not> rotateLeft ?s" "\<not> rotateRight ?s"
    by (simp_all add: processRotation_def mount_def initEffect_def initialRefs_def Let_def PI_2_def)
  have rk: "targetRotation (rotateKeys id (1 / 60) ?s) = \<lparr>ex = 0, ey = 4\<rparr>"
    using k by (simp add: rotateKeys_def Let_def t)
  have d: "4 = ey (targetRotation (rotateKeys id (1 / 60) ?s)) - ey (currentRotation ?s)"
    by (simp add: rk c)
  have a: "- (3 * pi) \<le> 4" and b: "4 \<le> 3 * pi" using p2 by simp_all
  have w: "(if 4 > pi then 4 - 2 * pi else if 4 < - pi then 4 + 2 * pi else 4) = 4 - 2 * pi"
    using p4 by simp
  have m: "min 1 ((1 / 60 :: real) * 15) = 1 / 4" by simp
  from rotation_smoothing_law [of openProps id "1 / 60" ?s 4] d a b
  have "ey (currentRotation (useFrame openProps id (1 / 60) ?s)) =
        ey (currentRotation ?s) +
        (if 4 > pi then 4 - 2 * pi else if 4 < - pi then 4 + 2 * pi else 4) * min 1 (1 / 60 * 15) \<and>
      - pi \<le> (if 4 > pi then 4 - 2 * pi else if 4 < - pi then 4 + 2 * pi else 4) \<and>
      (if 4 > pi then 4 - 2 * pi else if 4 < - pi then 4 + 2 * pi else 4) \<le> pi"
    by blast
  then have e: "ey (currentRotation (useFrame openProps id (1 / 60) ?s)) = (4 - 2 * pi) * (1 / 4) \<and>
      - pi \<le> 4 - 2 * pi \<and> 4 - 2 * pi \<le> pi"
    unfolding w m by (simp add: c)
  from d a b e show ?thesis by blast
qed

text \<open>
  Where the claim as stated fails. One frame of 1/15 s from the spawn state with the
  target yaw turned to 1 (by a mouse rotation of -1): the code's factor is 1 and the
  yaw reaches the target, 1, in that frame; the exponential factor of the claim,
  \<open>1 - exp (- 15 / 15)\<close>, would leave it below 1 (as it would for any rate \<open>k\<close>:
  \<open>spec_factor_below_one\<close>). And a raw yaw difference of exactly \<open>- pi\<close> is left at
  \<open>- pi\<close>, the closed end of \<open>[- pi, pi]\<close>, outside the claim's \<open>(- pi, pi]\<close>.
\<close>

theorem rotation_smoothing_counterexample:
  "ey (currentRotation (useFrame openProps id (1 / 15) (processRotation id 0 (- 1) (mount openProps)))) = 1 \<and>
   ey (currentRotation (processRotation id 0 (- 1) (mount openProps))) +
     normalizedDeltaY
       (ey (targetRotation (processRotation id 0 (- 1) (mount openProps))) -
        ey (currentRotation (processRotation id 0 (- 1) (mount openProps))))
       * spec_rotLerpFactor 15 (1 / 15) < 1 \<and>
   normalizedDeltaY (- pi) = - pi"
proof -
  let ?s = "processRotation id 0 (- 1) (mount openProps)"
  have t: "targetRotation ?s = \<lparr>ex = 0, ey = 1\<rparr>" and c: "currentRotation ?s = \<lparr>ex = 0, ey = 0\<rparr>"
    and k: "\<not> rotateLeft ?s" "\<not> rotateRight ?s"
    by (simp_all add: processRotation_def mount_def initEffect_def initialRefs_def Let_def PI_2_def)
  have n1: "normalizedDeltaY 1 = 1"
    using pi_ge_two by (simp add: normalizedDeltaY_cases)
  have rk: "targetRotation (rotateKeys id (1 / 15) ?s) = \<lparr>ex = 0, ey = 1\<rparr>"
    using k by (simp add: rotateKeys_def Let_def t)
  have a: "ey (currentRotation (useFrame openProps id (1 / 15) ?s)) = 1"
    by (simp add: useFrame_smoothing(2) rk c n1)
  have b: "ey (currentRotation ?s) +
     normalizedDeltaY (ey (targetRotation ?s) - ey (currentRotation ?s))
       * spec_rotLerpFactor 15 (1 / 15) < 1"
    by (simp add: t c n1 spec_rotLerpFactor_def)
  have d: "normalizedDeltaY (- pi) = - pi"
    by (simp add: normalizedDeltaY_cases)
  from a b d show ?thesis by blast
qed

section \<open>Click selection\<close>

lemma intersectObjects_set:
  "set (intersectObjects far meshes) =
     {(d, ob). ob \<in> set meshes \<and> d \<in> set (rayHits ob) \<and> 0 \<le> d \<and> d \<le> far}"
  by (auto simp add: intersectObjects_def)

lemma intersectObjects_sorted: "sorted (map fst (intersectObjects far meshes))"
  by (simp add: intersectObjects_def)

lemma intersectObjects_closest:
  assumes "intersectObjects far meshes = (d, ob) # rest"
  shows "ob \<in> set meshes" and "d \<in> set (rayHits ob)" and "0 \<le> d" and "d \<le> far"
    and "\<forall>ob' \<in> set meshes. \<forall>d' \<in> set (rayHits ob'). 0 \<le> d' \<and> d' \<le> far \<longrightarrow> d \<le> d'"
proof -
  have m: "(d, ob) \<in> set (intersectObjects far meshes)" by (simp add: assms)
  then show "ob \<in> set meshes" "d \<in> set (rayHits ob)" "0 \<le> d" "d \<le> far"
    by (simp_all add: intersectObjects_set)
  have s: "\<forall>x \<in> set rest. d \<le> fst x"
    using intersectObjects_sorted [of far meshes] by (simp add: assms)
  show "\<forall>ob' \<in> set meshes. \<forall>d' \<in> set (rayHits ob'). 0 \<le> d' \<and> d' \<le> far \<longrightarrow> d \<le> d'"
  proof (intro ballI impI)
    fix ob' d'
    assume "ob' \<in> set meshes" and "d' \<in> set (rayHits ob')" and "0 \<le> d' \<and> d' \<le> far"
    then have "(d', ob') \<in> set (intersectObjects far meshes)"
      by (simp add: intersectObjects_set)
    then have "(d', ob') = (d, ob) \<or> (d', ob') \<in> set rest" by (simp add: assms)
    then show "d \<le> d'" using s by auto
  qed
qed

lemma landMeshes_set:
  "ob \<in> set (landMeshes scene) \<longleftrightarrow>
     ob \<in> set scene \<and> isMesh ob \<and> truthy (userLandId ob) \<and> visible ob"
  by (auto simp add: landMeshes_def)

lemma handleClick_state: "fst (handleClick p button scene s) = s"
  by (simp add: handleClick_def Let_def split: list.split option.split)

lemma handleClick_miss:
  assumes "intersectObjects 50 (landMeshes scene) = []"
  shows "snd (handleClick p button scene s) = None"
  using assms by (simp add: handleClick_def Let_def)

lemma handleClick_hit:
  assumes "onLandClick p" and "intersectObjects 50 (landMeshes scene) = (d, ob) # rest"
  shows "snd (handleClick p 0 scene s) =
           (case find (\<lambda>l. Some (land_id l) = userLandId ob) (lands p) of
              None \<Rightarrow> None
            | Some l \<Rightarrow> if zone l \<noteq> road then Some l else None)"
proof -
  have m: "ob \<in> set (landMeshes scene)"
    by (rule intersectObjects_closest(1) [OF assms(2)])
  then have t: "truthy (userLandId ob)"
    by (simp add: landMeshes_set)
  from m have ne: "landMeshes scene \<noteq> []"
    by auto
  show ?thesis
    using assms t ne by (simp add: handleClick_def Let_def split: option.split)
qed

text \<open>
  Claim C9. A left click with a selection callback installed changes no state of the
  controls, and reports as follows. The ray is intersected with the visible meshes that
  carry a land id, up to distance 50. If nothing is hit within that range, nothing is
  reported. Otherwise the closest hit is within range and no hit within range is
  closer; if its land is a road (or is not among the lands), nothing is reported; if
  its land is not a road, exactly that land is reported, the one whose id the hit mesh
  carries.
\<close>

theorem selection_excludes_roads:
  assumes "onLandClick p"
  shows "fst (handleClick p 0 scene s) = s \<and>
         (intersectObjects 50 (landMeshes scene) = [] \<longrightarrow>
            snd (handleClick p 0 scene s) = None) \<and>
         (intersectObjects 50 (landMeshes scene) = (d, ob) # rest \<longrightarrow>
            0 \<le> d \<and> d \<le> 50 \<and> d \<in> set (rayHits ob) \<and>
            ob \<in> set scene \<and> isMesh ob \<and> visible ob \<and>
            (\<forall>ob' \<in> set (landMeshes scene). \<forall>d' \<in> set (rayHits ob').
               0 \<le> d' \<and> d' \<le> 50 \<longrightarrow> d \<le> d') \<and>
            (find (\<lambda>l. Some (land_id l) = userLandId ob) (lands p) = None \<longrightarrow>
               snd (handleClick p 0 scene s) = None) \<and>
            (find (\<lambda>l. Some (land_id l) = userLandId ob) (lands p) = Some l \<and> zone l = road \<longrightarrow>
               snd (handleClick p 0 scene s) = None) \<and>
            (find (\<lambda>l. Some (land_id l) = userLandId ob) (lands p) = Some l \<and> zone l \<noteq> road \<longrightarrow>
               snd (handleClick p 0 scene s) = Some l \<and> Some (land_id l) = userLandId ob \<and>
               l \<in> set (lands p)))"
proof -
  have hit: "0 \<le> d \<and> d \<le> 50 \<and> d \<in> set (rayHits ob) \<and>
            ob \<in> set scene \<and> isMesh ob \<and> visible ob \<and>
            (\<forall>ob' \<in> set (landMeshes scene). \<forall>d' \<in> set (rayHits ob').
               0 \<le> d' \<and> d' \<le> 50 \<longrightarrow> d \<le> d') \<and>
            (find (\<lambda>l. Some (land_id l) = userLandId ob) (lands p) = None \<longrightarrow>
               snd (handleClick p 0 scene s) = None) \<and>
            (find (\<lambda>l. Some (land_id l) = userLandId ob) (lands p) = Some l \<and> zone l = road \<longrightarrow>
               snd (handleClick p 0 scene s) = None) \<and>
            (find (\<lambda>l. Some (land_id l) = userLandId ob) (lands p) = Some l \<and> zone l \<noteq> road \<longrightarrow>
               snd (handleClick p 0 scene s) = Some l \<and> Some (land_id l) = userLandId ob \<and>
               l \<in> set (lands p))"
    if i: "intersectObjects 50 (landMeshes scene) = (d, ob) # rest"
  proof -
    note c = intersectObjects_closest [OF i]
    from c(1) have o: "ob \<in> set scene" "isMesh ob" "visible ob"
      by (simp_all add: landMeshes_set)
    note h = handleClick_hit [OF assms i, of s]
    have f: "Some (land_id l) = userLandId ob \<and> l \<in> set (lands p)"
      if "find (\<lambda>l. Some (land_id l) = userLandId ob) (lands p) = Some l"
      using that by (auto simp add: find_Some_iff)
    show ?thesis
      using c(2,3,4,5) o f by (simp add: h)
  qed
  from handleClick_state [of p 0 scene s] handleClick_miss [of scene p 0 s] hit
  show ?thesis by blast
qed

text \<open>
  An instance: in the first scene the closest hit is the road tile, and nothing is
  reported; in the second it is the park tile, at 7, and the park plot is reported.
\<close>

lemma roadFirst_hits:
  "intersectObjects 50 (landMeshes roadFirst) = [(3, tile ''3-4'' [3]), (7, tile ''3-5'' [7])]"
  by (simp add: roadFirst_def landMeshes_def tile_def truthy_def intersectObjects_def)

lemma parkFirst_hits:
  "intersectObjects 50 (landMeshes parkFirst) =
     [(7, tile ''3-5'' [60, 7]), (9, tile ''3-4'' [9])]"
  by (simp add: parkFirst_def landMeshes_def tile_def truthy_def intersectObjects_def)

theorem selection_excludes_roads_witness:
  "onLandClick clickProps \<and>
   intersectObjects 50 (landMeshes roadFirst) = [(3, tile ''3-4'' [3]), (7, tile ''3-5'' [7])] \<and>
   find (\<lambda>l. Some (land_id l) = userLandId (tile ''3-4'' [3])) (lands clickProps) = Some roadPlot \<and>
   zone roadPlot = road \<and>
   snd (handleClick clickProps 0 roadFirst standing) = None \<and>
   intersectObjects 50 (landMeshes parkFirst) =
     [(7, tile ''3-5'' [60, 7]), (9, tile ''3-4'' [9])] \<and>
   find (\<lambda>l. Some (land_id l) = userLandId (tile ''3-5'' [60, 7])) (lands clickProps) = Some parkPlot \<and>
   zone parkPlot \<noteq> road \<and>
   snd (handleClick clickProps 0 parkFirst standing) = Some parkPlot \<and>
   fst (handleClick clickProps 0 parkFirst standing) = standing"
proof -
  have c: "onLandClick clickProps" by (simp add: clickProps_def cityCanvasProps_def)
  have f1: "find (\<lambda>l. Some (land_id l) = userLandId (tile ''3-4'' [3])) (lands clickProps) = Some roadPlot"
    and f2: "find (\<lambda>l. Some (land_id l) = userLandId (tile ''3-5'' [60, 7])) (lands clickProps) = Some parkPlot"
    by (simp_all add: clickProps_def cityCanvasProps_def tile_def roadPlot_def parkPlot_def)
  have z1: "zone roadPlot = road" and z2: "zone parkPlot \<noteq> road"
    by (simp_all add: roadPlot_def parkPlot_def)
  have r1: "snd (handleClick clickProps 0 roadFirst standing) = None"
    using selection_excludes_roads [OF c, of roadFirst standing 3 "tile ''3-4'' [3]"
        "[(7, tile ''3-5'' [7])]" roadPlot] roadFirst_hits f1 z1
    by blast
  have r2: "snd (handleClick clickProps 0 parkFirst standing) = Some parkPlot \<and>
      fst (handleClick clickProps 0 parkFirst standing) = standing"
    using selection_excludes_roads [OF c, of parkFirst standing 7 "tile ''3-5'' [60, 7]"
        "[(9, tile ''3-4'' [9])]" parkPlot] parkFirst_hits f2 z2
    by blast
  from c roadFirst_hits f1 z1 r1 parkFirst_hits f2 z2 r2 show ?thesis by blast
qed

end
